theory Spec2Isabelle
  imports Main
begin

section \<open>JavaScript values\<close>

text \<open>
  The services handle credentials as plain JavaScript objects (\<^verbatim>\<open>Record<string, any>\<close>).
  A value is one of the constructors below. Numbers are the integers (the fields read by
  the code, \<^verbatim>\<open>expires_in\<close> and epoch times, are integral). A \<^verbatim>\<open>Date\<close> holds its time
  in milliseconds since the epoch, \<open>None\<close> for an Invalid Date. A string is either a
  literal or the opaque ciphertext produced by the cipher, of type \<open>'c\<close>. An object is
  its list of properties in insertion order, with distinct keys.
\<close>

datatype 'c jsval =
    JUndefined
  | JNull
  | JBool bool
  | JNum int
  | JStr string
  | JCipher 'c
  | JDate "int option"
  | JArr "'c jsval list"
  | JObj "(string \<times> 'c jsval) list"

text \<open>JavaScript truthiness, as used by \<^verbatim>\<open>!x\<close>, \<^verbatim>\<open>x && y\<close> and \<^verbatim>\<open>if (x)\<close>.\<close>

fun truthy :: "'c jsval \<Rightarrow> bool" where
  "truthy JUndefined = False"
| "truthy JNull = False"
| "truthy (JBool b) = b"
| "truthy (JNum n) = (n \<noteq> 0)"
| "truthy (JStr s) = (s \<noteq> [])"
| "truthy (JCipher c) = True"
| "truthy (JDate d) = True"
| "truthy (JArr xs) = True"
| "truthy (JObj kvs) = True"

text \<open>\<^verbatim>\<open>x == null\<close>: true of \<^verbatim>\<open>null\<close> and \<^verbatim>\<open>undefined\<close> only.\<close>

fun nullish :: "'c jsval \<Rightarrow> bool" where
  "nullish JUndefined = True"
| "nullish JNull = True"
| "nullish v = False"

text \<open>Property read \<^verbatim>\<open>obj[key]\<close> on a record of raw values: a missing key reads \<^verbatim>\<open>undefined\<close>.\<close>

definition js_prop :: "(string \<times> 'c jsval) list \<Rightarrow> string \<Rightarrow> 'c jsval" where
  "js_prop kvs k = (case map_of kvs k of None \<Rightarrow> JUndefined | Some v \<Rightarrow> v)"

text \<open>Property read on any value; reading a property of \<^verbatim>\<open>null\<close> or \<^verbatim>\<open>undefined\<close> throws.\<close>

fun js_get :: "'c jsval \<Rightarrow> string \<Rightarrow> 'c jsval option" where
  "js_get JUndefined k = None"
| "js_get JNull k = None"
| "js_get (JObj kvs) k = Some (js_prop kvs k)"
| "js_get v k = Some JUndefined"

subsection \<open>JSON\<close>

text \<open>
  A JSON text is represented by the document it denotes. \<^verbatim>\<open>JSON.stringify\<close> maps a value
  to its document: properties whose value is \<^verbatim>\<open>undefined\<close> are left out, \<^verbatim>\<open>undefined\<close> in
  an array becomes \<^verbatim>\<open>null\<close>, and a \<^verbatim>\<open>Date\<close> is written through \<^verbatim>\<open>toJSON\<close>, that is as its
  ISO string (\<^verbatim>\<open>null\<close> for an Invalid Date). \<^verbatim>\<open>JSON.parse\<close> reads a document back as a value.
\<close>

datatype 'c json =
    DNull
  | DBool bool
  | DNum int
  | DStr string
  | DCipher 'c
  | DArr "'c json list"
  | DObj "(string \<times> 'c json) list"

definition pad :: "nat \<Rightarrow> nat \<Rightarrow> string" where
  "pad w n = map (\<lambda>i. ''0123456789'' ! ((n div 10 ^ (w - 1 - i)) mod 10)) [0..<w]"

text \<open>\<^verbatim>\<open>Date.prototype.toISOString\<close> for a valid time value (proleptic Gregorian calendar, UTC).\<close>

definition toISOString :: "int \<Rightarrow> string" where
  "toISOString t =
     (let days = t div 86400000;
          r = nat (t mod 86400000);
          z = days + 719468;
          era = z div 146097;
          doe = z mod 146097;
          yoe = (doe - doe div 1460 + doe div 36524 - doe div 146096) div 365;
          doy = doe - (365 * yoe + yoe div 4 - yoe div 100);
          mp = (5 * doy + 2) div 153;
          d = doy - (153 * mp + 2) div 5 + 1;
          m = (if mp < 10 then mp + 3 else mp - 9);
          y = yoe + era * 400 + (if m \<le> 2 then 1 else 0);
          year = (if 0 \<le> y \<and> y \<le> 9999 then pad 4 (nat y)
                  else (if y < 0 then ''-'' else ''+'') @ pad 6 (nat \<bar>y\<bar>))
      in year @ ''-'' @ pad 2 (nat m) @ ''-'' @ pad 2 (nat d) @ ''T''
         @ pad 2 (r div 3600000) @ '':'' @ pad 2 ((r div 60000) mod 60) @ '':''
         @ pad 2 ((r div 1000) mod 60) @ ''.'' @ pad 3 (r mod 1000) @ ''Z'')"

text \<open>
  \<open>to_json v\<close> is \<open>None\<close> where \<^verbatim>\<open>JSON.stringify(v)\<close> is \<^verbatim>\<open>undefined\<close>, so that the
  enclosing object drops the property.
\<close>

primrec to_json :: "'c jsval \<Rightarrow> 'c json option" where
  "to_json JUndefined = None"
| "to_json JNull = Some DNull"
| "to_json (JBool b) = Some (DBool b)"
| "to_json (JNum n) = Some (DNum n)"
| "to_json (JStr s) = Some (DStr s)"
| "to_json (JCipher c) = Some (DCipher c)"
| "to_json (JDate d) = Some (case d of None \<Rightarrow> DNull | Some t \<Rightarrow> DStr (toISOString t))"
| "to_json (JArr xs) =
     Some (DArr (map (\<lambda>r. case r of None \<Rightarrow> DNull | Some j \<Rightarrow> j) (map to_json xs)))"
| "to_json (JObj kvs) =
     Some (DObj (List.map_filter (\<lambda>(k, r). map_option (Pair k) r)
                   (map (map_prod id to_json) kvs)))"

primrec JSON_parse :: "'c json \<Rightarrow> 'c jsval" where
  "JSON_parse DNull = JNull"
| "JSON_parse (DBool b) = JBool b"
| "JSON_parse (DNum n) = JNum n"
| "JSON_parse (DStr s) = JStr s"
| "JSON_parse (DCipher c) = JCipher c"
| "JSON_parse (DArr xs) = JArr (map JSON_parse xs)"
| "JSON_parse (DObj kvs) = JObj (map (map_prod id JSON_parse) kvs)"

text \<open>
  \<^verbatim>\<open>JSON.stringify(v)\<close> as the argument of \<^verbatim>\<open>encrypt\<close>: for \<^verbatim>\<open>undefined\<close> there is no
  text, and the cipher throws on it.
\<close>

definition JSON_stringify :: "'c jsval \<Rightarrow> 'c json option" where
  "JSON_stringify v = to_json v"

text \<open>The values that are their own JSON reading: no \<^verbatim>\<open>undefined\<close> and no \<^verbatim>\<open>Date\<close> inside.\<close>

primrec json_value :: "'c jsval \<Rightarrow> bool" where
  "json_value JUndefined = False"
| "json_value JNull = True"
| "json_value (JBool b) = True"
| "json_value (JNum n) = True"
| "json_value (JStr s) = True"
| "json_value (JCipher c) = True"
| "json_value (JDate d) = False"
| "json_value (JArr xs) = list_all id (map json_value xs)"
| "json_value (JObj kvs) = list_all snd (map (map_prod id json_value) kvs)"


section \<open>Connections and the encryption envelope\<close>

text \<open>
  A connection object as the services pass it around and as the table
  \<^verbatim>\<open>_nango_connections\<close> stores it. \<open>row_id\<close> (the property \<^verbatim>\<open>id\<close>), \<open>credentials_iv\<close>, \<open>credentials_tag\<close> and
  \<open>updated_at\<close> are \<open>None\<close> when the property is absent or \<^verbatim>\<open>null\<close>; \<open>config_id\<close> is
  always a property of the objects built here and \<open>None\<close> is its \<^verbatim>\<open>null\<close>.
\<close>

record 'c Connection =
  row_id :: "nat option"
  connection_id :: string
  provider_config_key :: string
  environment_id :: nat
  config_id :: "nat option"
  credentials :: "'c jsval"
  credentials_iv :: "string option"
  credentials_tag :: "string option"
  connection_config :: "(string \<times> 'c jsval) list"
  metadata :: "'c jsval"
  updated_at :: "int option"

datatype crypto_error = EncryptionFailed | DecryptionFailed

text \<open>
  The class \<^verbatim>\<open>Encryption\<close> that \<^verbatim>\<open>EncryptionManager\<close> extends is not among the sources.
  Its two methods are parameters of the functions below: \<open>encrypt\<close> takes the text and
  returns ciphertext, IV and authentication tag; \<open>decrypt\<close> takes the three and returns
  the text, or \<open>None\<close> where it throws.
\<close>

type_synonym 'c encrypt_fn = "'c json \<Rightarrow> 'c \<times> string \<times> string"
type_synonym 'c decrypt_fn = "'c \<Rightarrow> string \<Rightarrow> string \<Rightarrow> 'c json option"

definition shouldEncrypt :: "string \<Rightarrow> bool" where
  "shouldEncrypt key = (key \<noteq> [] \<and> length key > 0)"

definition encryptConnection ::
  "string \<Rightarrow> 'c encrypt_fn \<Rightarrow> 'c Connection \<Rightarrow> crypto_error + 'c Connection" where
  "encryptConnection key encrypt connection =
     (if \<not> shouldEncrypt key then Inr connection
      else case JSON_stringify (credentials connection) of
             None \<Rightarrow> Inl EncryptionFailed
           | Some plaintext \<Rightarrow>
               (case encrypt plaintext of
                  (encryptedClientSecret, iv, authTag) \<Rightarrow>
                    Inr (connection
                          \<lparr>credentials := JObj [(''encrypted_credentials'', JCipher encryptedClientSecret)],
                           credentials_iv := Some iv,
                           credentials_tag := Some authTag\<rparr>)))"

text \<open>
  \<^verbatim>\<open>decrypt\<close> is handed \<^verbatim>\<open>connection.credentials['encrypted_credentials']\<close>; on anything
  but a ciphertext it throws.
\<close>

definition decryptConnection ::
  "'c decrypt_fn \<Rightarrow> 'c Connection option \<Rightarrow> crypto_error + 'c Connection option" where
  "decryptConnection decrypt connection =
     (case connection of
        None \<Rightarrow> Inr None
      | Some conn \<Rightarrow>
          (case credentials_iv conn of
             None \<Rightarrow> Inr connection
           | Some iv \<Rightarrow>
               (case credentials_tag conn of
                  None \<Rightarrow> Inr connection
                | Some tag \<Rightarrow>
                    (case js_get (credentials conn) ''encrypted_credentials'' of
                       Some (JCipher ct) \<Rightarrow>
                         (case decrypt ct iv tag of
                            None \<Rightarrow> Inl DecryptionFailed
                          | Some plaintext \<Rightarrow> Inr (Some (conn\<lparr>credentials := JSON_parse plaintext\<rparr>)))
                     | _ \<Rightarrow> Inl DecryptionFailed))))"

text \<open>
  Modelled from the spec: the cipher of the class \<^verbatim>\<open>Encryption\<close>, for the closed examples. It
  is authenticated (key and IV in; ciphertext, IV and tag out) and decryption fails
  closed: the ciphertext is the sealed text, opened only under the same key, IV and tag.
\<close>

datatype sealed = Sealed string string "sealed json"

definition seal_tag :: "string \<Rightarrow> string \<Rightarrow> string" where
  "seal_tag key iv = rev key @ iv"

definition seal_encrypt :: "string \<Rightarrow> string \<Rightarrow> sealed encrypt_fn" where
  "seal_encrypt key iv plaintext = (Sealed key iv plaintext, iv, seal_tag key iv)"

fun seal_decrypt :: "string \<Rightarrow> sealed decrypt_fn" where
  "seal_decrypt key (Sealed k i plaintext) iv tag =
     (if k = key \<and> i = iv \<and> tag = seal_tag key iv then Some plaintext else None)"

text \<open>\<^verbatim>\<open>decryptConnection(encryptConnection(connection))\<close>, an exception of either call passed on.\<close>

definition envelope_roundtrip ::
  "string \<Rightarrow> 'c encrypt_fn \<Rightarrow> 'c decrypt_fn \<Rightarrow> 'c Connection
     \<Rightarrow> crypto_error + 'c Connection option" where
  "envelope_roundtrip key encrypt decrypt connection =
     (case encryptConnection key encrypt connection of
        Inl e \<Rightarrow> Inl e
      | Inr stored \<Rightarrow> decryptConnection decrypt (Some stored))"

text \<open>
  Example data: OAuth2 credentials as the provider returned them (all JSON), the same
  credentials as \<^verbatim>\<open>parseRawCredentials\<close> builds them, with \<^verbatim>\<open>expires_at\<close> a \<^verbatim>\<open>Date\<close>, and a
  connection object as \<^verbatim>\<open>upsertConnection\<close> builds it around given credentials.
\<close>

definition raw_oauth2_example :: "sealed jsval" where
  "raw_oauth2_example =
     JObj [(''access_token'', JStr ''at-1''), (''refresh_token'', JStr ''rt-1''),
           (''expires_in'', JNum 3600)]"

definition dated_oauth2_example :: "sealed jsval" where
  "dated_oauth2_example =
     JObj [(''type'', JStr ''OAUTH2''), (''access_token'', JStr ''at-1''),
           (''refresh_token'', JStr ''rt-1''), (''expires_at'', JDate (Some 1700000000000)),
           (''raw'', raw_oauth2_example)]"

definition connection_example :: "sealed jsval \<Rightarrow> sealed Connection" where
  "connection_example creds =
     \<lparr>row_id = None, connection_id = ''c1'', provider_config_key = ''gh'', environment_id = 1,
      config_id = Some 7, credentials = creds, credentials_iv = None, credentials_tag = None,
      connection_config = [], metadata = JNull, updated_at = None\<rparr>"

section \<open>Parsing raw credentials\<close>

text \<open>
  The enumeration \<^verbatim>\<open>AuthModes\<close> (imported as \<^verbatim>\<open>ProviderAuthModes\<close>). Its declaration is not
  among the sources; the members are those the sources and the data model name.
  \<open>NoneMode\<close> is the member \<^verbatim>\<open>None\<close>.
\<close>

datatype AuthModes =
  OAuth1 | OAuth2 | OAuth2CC | Basic | ApiKey | AppStore | Custom | App | NoneMode











section \<open>The connections table\<close>

text \<open>
  A row of \<^verbatim>\<open>_nango_connections\<close>: the primary key \<^verbatim>\<open>id\<close>, the columns a connection object
  carries, and the soft-delete flag. \<open>select_star\<close> is the object \<^verbatim>\<open>select('*')\<close> yields for
  a row, as far as the services read it.
\<close>

record 'c Row =
  rid :: nat
  cols :: "'c Connection"
  deleted :: bool

definition select_star :: "'c Row \<Rightarrow> 'c Connection" where
  "select_star r = (cols r)\<lparr>row_id := Some (rid r)\<rparr>"

text \<open>
  \<^verbatim>\<open>update(obj)\<close> on one row sets the columns that are properties of \<open>obj\<close> and leaves the
  others: \<^verbatim>\<open>credentials_iv\<close>, \<^verbatim>\<open>credentials_tag\<close> and \<^verbatim>\<open>updated_at\<close> are written only when the
  object carries them, and the primary key stays.
\<close>

definition patch_row :: "'c Connection \<Rightarrow> 'c Row \<Rightarrow> 'c Row" where
  "patch_row obj r =
     r\<lparr>cols := (cols r)
          \<lparr>connection_id := connection_id obj,
           provider_config_key := provider_config_key obj,
           environment_id := environment_id obj,
           config_id := config_id obj,
           credentials := credentials obj,
           credentials_iv := (case credentials_iv obj of
                                None \<Rightarrow> credentials_iv (cols r) | Some iv \<Rightarrow> Some iv),
           credentials_tag := (case credentials_tag obj of
                                 None \<Rightarrow> credentials_tag (cols r) | Some tag \<Rightarrow> Some tag),
           connection_config := connection_config obj,
           metadata := metadata obj,
           updated_at := (case updated_at obj of
                            None \<Rightarrow> updated_at (cols r) | Some t \<Rightarrow> Some t)\<rparr>\<rparr>"

text \<open>\<^verbatim>\<open>where({ id, deleted: false }).update(obj)\<close> and \<^verbatim>\<open>where({ id }).update(obj)\<close>.\<close>

definition update_live_by_id :: "nat \<Rightarrow> 'c Connection \<Rightarrow> 'c Row list \<Rightarrow> 'c Row list" where
  "update_live_by_id i obj table =
     map (\<lambda>r. if rid r = i \<and> \<not> deleted r then patch_row obj r else r) table"

definition update_by_id :: "nat \<Rightarrow> 'c Connection \<Rightarrow> 'c Row list \<Rightarrow> 'c Row list" where
  "update_by_id i obj table = map (\<lambda>r. if rid r = i then patch_row obj r else r) table"

text \<open>
  \<^verbatim>\<open>insert(obj, ['id'])\<close>. Modelled from the spec: a surrogate id is generated on insert (here
  the successor of the largest id in the table); the column \<^verbatim>\<open>deleted\<close> takes its default,
  false.
\<close>

definition fresh_id :: "'c Row list \<Rightarrow> nat" where
  "fresh_id table = Suc (fold max (map rid table) 0)"

definition insert_row :: "'c Connection \<Rightarrow> 'c Row list \<Rightarrow> 'c Row list \<times> nat" where
  "insert_row obj table =
     (table @ [\<lparr>rid = fresh_id table, cols = obj\<lparr>row_id := None\<rparr>, deleted = False\<rparr>],
      fresh_id table)"

text \<open>
  The condition \<^verbatim>\<open>where({ connection_id, provider_config_key, environment_id, deleted: false })\<close>
  and the rows it selects.
\<close>

definition keyed :: "string \<Rightarrow> string \<Rightarrow> nat \<Rightarrow> 'c Row \<Rightarrow> bool" where
  "keyed cid pck env r =
     (connection_id (cols r) = cid \<and> provider_config_key (cols r) = pck
      \<and> environment_id (cols r) = env \<and> deleted r = False)"

definition live_with_key :: "'c Row list \<Rightarrow> string \<Rightarrow> string \<Rightarrow> nat \<Rightarrow> 'c Row list" where
  "live_with_key table cid pck env = filter (keyed cid pck env) table"

definition checkIfConnectionExists ::
  "'c Row list \<Rightarrow> string \<Rightarrow> string \<Rightarrow> nat \<Rightarrow> (nat \<times> 'c jsval) option" where
  "checkIfConnectionExists table connection_id' provider_config_key' environment_id' =
     (case live_with_key table connection_id' provider_config_key' environment_id' of
        [] \<Rightarrow> None
      | r # rest \<Rightarrow> Some (rid r, metadata (cols r)))"

datatype AuthOperation = CREATION | OVERRIDE | UNKNOWN

text \<open>
  \<^verbatim>\<open>upsertConnection\<close>. \<open>getIdByProviderConfigKey\<close> stands for the lookup of the config
  service, \<open>now\<close> for \<^verbatim>\<open>new Date()\<close>; \<open>metadata'\<close> is \<^verbatim>\<open>undefined\<close> when the argument is left
  out. The arguments \<^verbatim>\<open>provider\<close> and \<^verbatim>\<open>accountId\<close> only feed the analytics call and are left
  out. The result is the table afterwards and the single response \<^verbatim>\<open>{ id, operation }\<close>.
\<close>

definition upsertConnection ::
  "string \<Rightarrow> 'c encrypt_fn \<Rightarrow> (nat \<Rightarrow> string \<Rightarrow> nat option) \<Rightarrow> int \<Rightarrow> 'c Row list
     \<Rightarrow> string \<Rightarrow> string \<Rightarrow> 'c jsval \<Rightarrow> (string \<times> 'c jsval) list \<Rightarrow> nat \<Rightarrow> 'c jsval
     \<Rightarrow> crypto_error + ('c Row list \<times> nat \<times> AuthOperation)" where
  "upsertConnection key encrypt getIdByProviderConfigKey now table
     connectionId providerConfigKey parsedRawCredentials connectionConfig environment_id'
     metadata' =
     (case checkIfConnectionExists table connectionId providerConfigKey environment_id' of
        Some (stored_id, stored_metadata) \<Rightarrow>
          (case encryptConnection key encrypt
                  \<lparr>row_id = None, connection_id = connectionId,
                   provider_config_key = providerConfigKey, environment_id = environment_id',
                   config_id = getIdByProviderConfigKey environment_id' providerConfigKey,
                   credentials = parsedRawCredentials,
                   credentials_iv = None, credentials_tag = None,
                   connection_config = connectionConfig,
                   metadata = (if truthy metadata' then metadata'
                               else if truthy stored_metadata then stored_metadata else JNull),
                   updated_at = None\<rparr> of
             Inl e \<Rightarrow> Inl e
           | Inr encryptedConnection \<Rightarrow>
               Inr (update_live_by_id stored_id (encryptedConnection\<lparr>updated_at := Some now\<rparr>) table,
                    stored_id, OVERRIDE))
      | None \<Rightarrow>
          (case encryptConnection key encrypt
                  \<lparr>row_id = None, connection_id = connectionId,
                   provider_config_key = providerConfigKey, environment_id = environment_id',
                   config_id = getIdByProviderConfigKey environment_id' providerConfigKey,
                   credentials = parsedRawCredentials,
                   credentials_iv = None, credentials_tag = None,
                   connection_config = connectionConfig,
                   metadata = (if truthy metadata' then metadata' else JNull),
                   updated_at = None\<rparr> of
             Inl e \<Rightarrow> Inl e
           | Inr encryptedConnection \<Rightarrow>
               (case insert_row encryptedConnection table of
                  (table', new_id) \<Rightarrow> Inr (table', new_id, CREATION))))"

text \<open>Two calls of \<^verbatim>\<open>upsertConnection\<close> with the same natural key, one after the other.\<close>

definition upsert_twice ::
  "string \<Rightarrow> 'c encrypt_fn \<Rightarrow> (nat \<Rightarrow> string \<Rightarrow> nat option) \<Rightarrow> int \<Rightarrow> 'c Row list
     \<Rightarrow> string \<Rightarrow> string \<Rightarrow> 'c jsval \<Rightarrow> (string \<times> 'c jsval) list \<Rightarrow> nat \<Rightarrow> 'c jsval
     \<Rightarrow> crypto_error + ('c Row list \<times> (nat \<times> AuthOperation) \<times> (nat \<times> AuthOperation))" where
  "upsert_twice key encrypt getId now table cid pck creds cfg env meta =
     (case upsertConnection key encrypt getId now table cid pck creds cfg env meta of
        Inl e \<Rightarrow> Inl e
      | Inr (table1, first) \<Rightarrow>
          (case upsertConnection key encrypt getId now table1 cid pck creds cfg env meta of
             Inl e \<Rightarrow> Inl e
           | Inr (table2, second) \<Rightarrow> Inr (table2, first, second)))"

text \<open>A table for the closed examples: one soft-deleted row of the key \<open>(c1, gh, 1)\<close>.\<close>

definition table_example :: "sealed Row list" where
  "table_example =
     [\<lparr>rid = 4, cols = connection_example raw_oauth2_example, deleted = True\<rparr>]"

text \<open>And one with a live row of that key.\<close>

definition live_table_example :: "sealed Row list" where
  "live_table_example =
     [\<lparr>rid = 4, cols = connection_example raw_oauth2_example, deleted = False\<rparr>]"

definition no_config_id :: "nat \<Rightarrow> string \<Rightarrow> nat option" where
  "no_config_id env pck = None"

section \<open>The one-time encryption of the database\<close>

text \<open>
  The single row of \<^verbatim>\<open>_nango_db_config\<close>, and the state \<^verbatim>\<open>encryptDatabaseIfNeeded\<close> works on:
  the connections table, that row if there is one, the other tables \<^verbatim>\<open>encryptDatabase\<close>
  walks (environments, provider configs, environment variables, data records), kept
  abstract, and a log of the \<^verbatim>\<open>update\<close> statements issued on \<^verbatim>\<open>_nango_connections\<close>, by row id.
\<close>

record DBConfig =
  encryption_key_hash :: "string option"
  encryption_complete :: bool

record ('c, 'o) Database =
  connections :: "'c Row list"
  db_config :: "DBConfig option"
  other_tables :: 'o
  connection_updates :: "nat list"

datatype migration_error = encrypt_error crypto_error | encryption_key_changed

text \<open>\<^verbatim>\<open>connection.credentials_iv && connection.credentials_tag\<close>: both set and non-empty.\<close>

definition has_iv_and_tag :: "'c Connection \<Rightarrow> bool" where
  "has_iv_and_tag connection =
     ((case credentials_iv connection of None \<Rightarrow> False | Some iv \<Rightarrow> iv \<noteq> [])
      \<and> (case credentials_tag connection of None \<Rightarrow> False | Some tag \<Rightarrow> tag \<noteq> []))"

text \<open>
  The loop of \<^verbatim>\<open>encryptDatabase\<close> over the rows selected from \<^verbatim>\<open>_nango_connections\<close>, the
  table and the log being threaded through; an exception leaves them as they were when
  it was thrown.
\<close>

fun encrypt_connections ::
  "string \<Rightarrow> 'c encrypt_fn \<Rightarrow> 'c Row list \<Rightarrow> 'c Row list \<times> nat list
     \<Rightarrow> (crypto_error \<times> 'c Row list \<times> nat list) + ('c Row list \<times> nat list)" where
  "encrypt_connections key encrypt [] (table, log) = Inr (table, log)"
| "encrypt_connections key encrypt (r # rest) (table, log) =
     (if has_iv_and_tag (select_star r) then encrypt_connections key encrypt rest (table, log)
      else case encryptConnection key encrypt (select_star r) of
             Inl e \<Rightarrow> Inl (e, table, log)
           | Inr storedConnection \<Rightarrow>
               encrypt_connections key encrypt rest
                 (update_by_id (rid r) storedConnection table, log @ [rid r]))"

definition encryptDatabase ::
  "string \<Rightarrow> 'c encrypt_fn \<Rightarrow> ('o \<Rightarrow> 'o) \<Rightarrow> ('c, 'o) Database
     \<Rightarrow> (migration_error \<times> ('c, 'o) Database) + ('c, 'o) Database" where
  "encryptDatabase key encrypt encryptOtherTables db =
     (case encrypt_connections key encrypt (connections db)
             (connections db, connection_updates db) of
        Inl (e, table, log) \<Rightarrow>
          Inl (encrypt_error e, db\<lparr>connections := table, connection_updates := log\<rparr>)
      | Inr (table, log) \<Rightarrow>
          Inr (db\<lparr>connections := table, connection_updates := log,
                  other_tables := encryptOtherTables (other_tables db)\<rparr>))"

text \<open>\<^verbatim>\<open>saveDbConfig\<close>: the row is deleted and the new one inserted.\<close>

definition saveDbConfig :: "DBConfig \<Rightarrow> ('c, 'o) Database \<Rightarrow> ('c, 'o) Database" where
  "saveDbConfig dbConfig db = db\<lparr>db_config := Some dbConfig\<rparr>"

text \<open>
  \<^verbatim>\<open>encryptDatabaseIfNeeded\<close>. \<open>hashEncryptionKey\<close> is the PBKDF2 hash of the key under the
  fixed salt.
\<close>

definition encryptDatabaseIfNeeded ::
  "string \<Rightarrow> (string \<Rightarrow> string) \<Rightarrow> 'c encrypt_fn \<Rightarrow> ('o \<Rightarrow> 'o) \<Rightarrow> ('c, 'o) Database
     \<Rightarrow> (migration_error \<times> ('c, 'o) Database) + ('c, 'o) Database" where
  "encryptDatabaseIfNeeded key hashEncryptionKey encrypt encryptOtherTables db =
     (let dbConfig = db_config db;
          encryptionKeyHash = (if key \<noteq> [] then Some (hashEncryptionKey key) else None);
          isEncryptionKeyNew = (dbConfig = None \<and> key \<noteq> []);
          isEncryptionIncomplete =
            (case dbConfig of
               None \<Rightarrow> False
             | Some c \<Rightarrow> encryption_key_hash c = encryptionKeyHash
                         \<and> encryption_complete c = False)
      in if isEncryptionKeyNew \<or> isEncryptionIncomplete then
           (case encryptDatabase key encrypt encryptOtherTables
                   (if isEncryptionKeyNew
                    then saveDbConfig \<lparr>encryption_key_hash = encryptionKeyHash,
                                        encryption_complete = False\<rparr> db
                    else db) of
              Inl failure \<Rightarrow> Inl failure
            | Inr db' \<Rightarrow>
                Inr (saveDbConfig \<lparr>encryption_key_hash = encryptionKeyHash,
                                    encryption_complete = True\<rparr> db'))
         else if (case dbConfig of
                    None \<Rightarrow> False
                  | Some c \<Rightarrow> encryption_key_hash c \<noteq> None
                              \<and> encryption_key_hash c \<noteq> encryptionKeyHash)
           then Inl (encryption_key_changed, db)
         else Inr db)"

text \<open>
  A database for the closed examples: two plaintext rows, one of them soft-deleted, and a
  row that already carries ciphertext, IV and tag.
\<close>

definition database_example :: "(sealed, unit) Database" where
  "database_example =
     \<lparr>connections =
        [\<lparr>rid = 4, cols = connection_example raw_oauth2_example, deleted = True\<rparr>,
         \<lparr>rid = 6, cols = connection_example raw_oauth2_example, deleted = False\<rparr>,
         \<lparr>rid = 9,
          cols = (connection_example
                    (JObj [(''encrypted_credentials'',
                            JCipher (Sealed ''k'' ''iv-0'' (DObj [(''apiKey'', DStr ''key-9'')])))]))
                   \<lparr>connection_id := ''c9'', credentials_iv := Some ''iv-0'',
                    credentials_tag := Some ''kiv-0''\<rparr>,
          deleted = False\<rparr>],
      db_config = None, other_tables = (), connection_updates = []\<rparr>"

definition hash_example :: "string \<Rightarrow> string" where
  "hash_example key = rev key"

section \<open>Refreshing credentials\<close>

text \<open>
  A provider config and a provider template, with the fields the flows read. \<open>None\<close>
  stands for a field that is \<^verbatim>\<open>null\<close> or missing. \<open>grant_type\<close> is
  \<^verbatim>\<open>token_params.grant_type\<close>, \<open>None\<close> also when \<^verbatim>\<open>token_params\<close> is missing. An object of
  string parameters is a map from its keys.
\<close>

record ProviderConfig =
  provider :: string
  oauth_client_id :: "string option"
  oauth_client_secret :: "string option"
  oauth_scopes :: "string option"
  app_link :: "string option"

datatype token_url = TokenUrl string | TokenUrlByMode "(AuthModes \<times> string) list"

record Template =
  auth_mode :: AuthModes
  token_expiration_buffer :: "int option"
  authorization_url :: string
  token_url :: token_url
  disable_pkce :: bool
  authorization_params :: "(string \<rightharpoonup> string) option"
  grant_type :: "string option"
  scope_separator :: "string option"
  authorization_url_replacements :: "(string \<times> string) list option"

text \<open>
  The string values of \<^verbatim>\<open>AuthModes\<close>, found in the \<^verbatim>\<open>type\<close> field of stored credentials. The
  declaration is not among the sources: the values are taken to be the names in upper
  case, and only their being distinct is used.
\<close>

fun AuthModes_value :: "AuthModes \<Rightarrow> string" where
  "AuthModes_value OAuth1 = ''OAUTH1''"
| "AuthModes_value OAuth2 = ''OAUTH2''"
| "AuthModes_value OAuth2CC = ''OAUTH2_CC''"
| "AuthModes_value Basic = ''BASIC''"
| "AuthModes_value ApiKey = ''API_KEY''"
| "AuthModes_value AppStore = ''APP_STORE''"
| "AuthModes_value Custom = ''CUSTOM''"
| "AuthModes_value App = ''APP''"
| "AuthModes_value NoneMode = ''NONE''"

datatype js_exception = TypeError

text \<open>\<^verbatim>\<open>credentials?.type === mode\<close>.\<close>

definition credentials_have_type :: "'c jsval \<Rightarrow> AuthModes \<Rightarrow> bool" where
  "credentials_have_type creds mode =
     (case js_get creds ''type'' of
        Some (JStr s) \<Rightarrow> s = AuthModes_value mode
      | _ \<Rightarrow> False)"

text \<open>
  \<^verbatim>\<open>shouldRefreshCredentials\<close>. The two methods of the provider client and
  \<^verbatim>\<open>isTokenExpired\<close> (of \<^verbatim>\<open>utils.js\<close>) are not among the sources and are parameters; the
  introspection is taken to answer. Reading a property of credentials that are \<^verbatim>\<open>null\<close> or
  \<^verbatim>\<open>undefined\<close> throws.
\<close>

definition shouldRefreshCredentials ::
  "(string \<Rightarrow> bool) \<Rightarrow> (ProviderConfig \<Rightarrow> 'c Connection \<Rightarrow> bool) \<Rightarrow> ('c jsval \<Rightarrow> int \<Rightarrow> bool)
     \<Rightarrow> 'c Connection \<Rightarrow> 'c jsval \<Rightarrow> ProviderConfig \<Rightarrow> Template \<Rightarrow> bool
     \<Rightarrow> js_exception + bool" where
  "shouldRefreshCredentials shouldIntrospectToken introspectedTokenExpired isTokenExpired
     connection creds providerConfig template instantRefresh =
     (let refreshCondition =
            (instantRefresh
             \<or> (shouldIntrospectToken (provider providerConfig)
                 \<and> introspectedTokenExpired providerConfig connection))
      in case (if refreshCondition then Inr True
               else case js_get creds ''expires_at'' of
                      None \<Rightarrow> Inl TypeError
                    | Some expires_at \<Rightarrow>
                        Inr (truthy expires_at
                             \<and> isTokenExpired expires_at
                                 (case token_expiration_buffer template of
                                    None \<Rightarrow> 15 * 60
                                  | Some b \<Rightarrow> if b \<noteq> 0 then b else 15 * 60))) of
           Inl ex \<Rightarrow> Inl ex
         | Inr tokenExpirationCondition \<Rightarrow>
             if (auth_mode template = OAuth2 \<or> credentials_have_type creds OAuth2)
                \<and> provider providerConfig \<noteq> ''facebook''
             then (case js_get creds ''refresh_token'' of
                     None \<Rightarrow> Inl TypeError
                   | Some refresh_token \<Rightarrow>
                       Inr (truthy refresh_token \<and> tokenExpirationCondition))
             else Inr tokenExpirationCondition)"

text \<open>
  The result of \<^verbatim>\<open>getNewCredentials\<close>, which re-derives credentials from the provider along
  the path of the mode: it throws, or it returns a \<^verbatim>\<open>ServiceResponse\<close>. It is a parameter of
  the model, the stub provider of the specification; its first argument is the number of
  calls made before, and every evaluation is one call.
\<close>

record 'c ServiceResponse =
  success :: bool
  error :: "string option"
  response :: "'c jsval option"

datatype 'c provider_outcome = Throws | Responds "'c ServiceResponse"

text \<open>
  What calls of \<^verbatim>\<open>refreshCredentialsIfNeeded\<close> share: the connections table, the locks held
  (by key), and the call counter of the provider.
\<close>

record 'c refresh_state =
  connections_table :: "'c Row list"
  locks :: "(nat \<times> string \<times> string) list"
  refresh_calls :: nat

text \<open>
  Modelled from the spec: the lock (class \<^verbatim>\<open>Locking\<close>, not among the sources) is a mutual
  exclusion lock by key; \<^verbatim>\<open>tryAcquire\<close> takes it when it is free and \<^verbatim>\<open>release\<close> frees it. Its
  TTL and its acquisition timeout are durations and are not modelled.
\<close>

definition lock_free :: "nat \<times> string \<times> string \<Rightarrow> 'c refresh_state \<Rightarrow> bool" where
  "lock_free lockKey s = (lockKey \<notin> set (locks s))"

definition acquire :: "nat \<times> string \<times> string \<Rightarrow> 'c refresh_state \<Rightarrow> 'c refresh_state" where
  "acquire lockKey s = s\<lparr>locks := lockKey # locks s\<rparr>"

definition release :: "nat \<times> string \<times> string \<Rightarrow> 'c refresh_state \<Rightarrow> 'c refresh_state" where
  "release lockKey s = s\<lparr>locks := removeAll lockKey (locks s)\<rparr>"

text \<open>\<^verbatim>\<open>updateConnection\<close>: the live rows of the connection's natural key take the object.\<close>

definition updateConnection ::
  "string \<Rightarrow> 'c encrypt_fn \<Rightarrow> 'c Connection \<Rightarrow> 'c Row list \<Rightarrow> crypto_error + 'c Row list" where
  "updateConnection key encrypt connection rows =
     (case encryptConnection key encrypt connection of
        Inl e \<Rightarrow> Inl e
      | Inr stored \<Rightarrow>
          Inr (map (\<lambda>r. if keyed (connection_id connection) (provider_config_key connection)
                               (environment_id connection) r
                         then patch_row stored r else r) rows))"

definition refresh_lock_key :: "nat \<Rightarrow> 'c Connection \<Rightarrow> nat \<times> string \<times> string" where
  "refresh_lock_key environment_id' connection =
     (environment_id', provider_config_key connection, connection_id connection)"

definition refresh_failed :: "'c ServiceResponse" where
  "refresh_failed =
     \<lparr>success = False, error = Some ''refresh_token_external_error'', response = None\<rparr>"

text \<open>
  \<^verbatim>\<open>refreshCredentialsIfNeeded\<close>, run on its own: from the decision to the release of the
  lock in \<^verbatim>\<open>finally\<close>. An exception of \<^verbatim>\<open>shouldRefreshCredentials\<close> is not caught.
\<close>

definition refreshCredentialsIfNeeded ::
  "(string \<Rightarrow> bool) \<Rightarrow> (ProviderConfig \<Rightarrow> 'c Connection \<Rightarrow> bool) \<Rightarrow> ('c jsval \<Rightarrow> int \<Rightarrow> bool)
     \<Rightarrow> (nat \<Rightarrow> 'c Connection \<Rightarrow> ProviderConfig \<Rightarrow> Template \<Rightarrow> 'c provider_outcome)
     \<Rightarrow> string \<Rightarrow> 'c encrypt_fn
     \<Rightarrow> 'c Connection \<Rightarrow> ProviderConfig \<Rightarrow> Template \<Rightarrow> nat \<Rightarrow> bool \<Rightarrow> 'c refresh_state
     \<Rightarrow> js_exception + ('c ServiceResponse \<times> 'c refresh_state)" where
  "refreshCredentialsIfNeeded shouldIntrospectToken introspectedTokenExpired isTokenExpired
     getNewCredentials key encrypt connection providerConfig template environment_id'
     instantRefresh s =
     (case shouldRefreshCredentials shouldIntrospectToken introspectedTokenExpired
             isTokenExpired connection (credentials connection) providerConfig template
             instantRefresh of
        Inl ex \<Rightarrow> Inl ex
      | Inr shouldRefresh \<Rightarrow>
          if shouldRefresh then
            (let lockKey = refresh_lock_key environment_id' connection;
                 s1 = (acquire lockKey s)\<lparr>refresh_calls := Suc (refresh_calls s)\<rparr>
             in case getNewCredentials (refresh_calls s) connection providerConfig template of
                  Throws \<Rightarrow> Inr (refresh_failed, release lockKey s1)
                | Responds r \<Rightarrow>
                    (case response r of
                       None \<Rightarrow> Inr (r\<lparr>response := None\<rparr>, release lockKey s1)
                     | Some newCredentials \<Rightarrow>
                         if \<not> success r \<or> \<not> truthy newCredentials
                         then Inr (r\<lparr>response := None\<rparr>, release lockKey s1)
                         else (case updateConnection key encrypt
                                      (connection\<lparr>credentials := newCredentials\<rparr>) (connections_table s1) of
                                 Inl e \<Rightarrow> Inr (refresh_failed, release lockKey s1)
                               | Inr rows \<Rightarrow>
                                   Inr (\<lparr>success = True, error = None,
                                         response = Some newCredentials\<rparr>,
                                        release lockKey (s1\<lparr>connections_table := rows\<rparr>)))))
          else Inr (\<lparr>success = True, error = None, response = Some (credentials connection)\<rparr>, s))"

subsection \<open>Concurrent calls\<close>

text \<open>
  Calls of \<^verbatim>\<open>refreshCredentialsIfNeeded\<close> run interleaved at their \<^verbatim>\<open>await\<close>s. A call is in
  one of these phases: not yet started; waiting in \<^verbatim>\<open>tryAcquire\<close>, having decided to
  refresh; holding the lock with the provider call in flight (the argument is the
  provider's call count when the call was made); the provider having answered, with the
  update of the row in flight (the arguments are the new credentials and the object to
  store); returned.
\<close>

datatype 'c phase =
    Start
  | WaitLock
  | InCall nat
  | InUpdate "'c jsval" "'c Connection"
  | Done "js_exception + 'c ServiceResponse"

text \<open>
  A call: the connection object it was given, its phase, and whether it has called the
  provider.
\<close>

record 'c caller =
  call_connection :: "'c Connection"
  phase :: "'c phase"
  called :: bool

record 'c world =
  callers :: "'c caller list"
  shared :: "'c refresh_state"

text \<open>
  One step of one call: the code between two \<^verbatim>\<open>await\<close>s. The decision is taken in the
  first step, from the credentials of the object the call was given. A call waiting for
  the lock proceeds when the lock is free, and the continuation after \<^verbatim>\<open>tryAcquire\<close> calls
  the provider at once. On the provider's answer the call returns, or encrypts and sends
  the update; when the update is done it returns. Every return after \<^verbatim>\<open>tryAcquire\<close>
  releases the lock.
\<close>

definition call_step ::
  "(string \<Rightarrow> bool) \<Rightarrow> (ProviderConfig \<Rightarrow> 'c Connection \<Rightarrow> bool) \<Rightarrow> ('c jsval \<Rightarrow> int \<Rightarrow> bool)
     \<Rightarrow> (nat \<Rightarrow> 'c Connection \<Rightarrow> ProviderConfig \<Rightarrow> Template \<Rightarrow> 'c provider_outcome)
     \<Rightarrow> string \<Rightarrow> 'c encrypt_fn \<Rightarrow> ProviderConfig \<Rightarrow> Template \<Rightarrow> nat \<Rightarrow> bool
     \<Rightarrow> 'c caller \<Rightarrow> 'c refresh_state \<Rightarrow> 'c caller \<times> 'c refresh_state" where
  "call_step shouldIntrospectToken introspectedTokenExpired isTokenExpired getNewCredentials
     key encrypt providerConfig template environment_id' instantRefresh c s =
     (let connection = call_connection c;
          lockKey = refresh_lock_key environment_id' connection
      in case phase c of
           Start \<Rightarrow>
             (case shouldRefreshCredentials shouldIntrospectToken introspectedTokenExpired
                     isTokenExpired connection (credentials connection) providerConfig
                     template instantRefresh of
                Inl ex \<Rightarrow> (c\<lparr>phase := Done (Inl ex)\<rparr>, s)
              | Inr shouldRefresh \<Rightarrow>
                  if shouldRefresh then (c\<lparr>phase := WaitLock\<rparr>, s)
                  else (c\<lparr>phase := Done (Inr \<lparr>success = True, error = None,
                                                response = Some (credentials connection)\<rparr>)\<rparr>,
                        s))
         | WaitLock \<Rightarrow>
             if lock_free lockKey s
             then (c\<lparr>phase := InCall (refresh_calls s), called := True\<rparr>,
                   (acquire lockKey s)\<lparr>refresh_calls := Suc (refresh_calls s)\<rparr>)
             else (c, s)
         | InCall n \<Rightarrow>
             (case getNewCredentials n connection providerConfig template of
                Throws \<Rightarrow> (c\<lparr>phase := Done (Inr refresh_failed)\<rparr>, release lockKey s)
              | Responds r \<Rightarrow>
                  (case response r of
                     None \<Rightarrow> (c\<lparr>phase := Done (Inr (r\<lparr>response := None\<rparr>))\<rparr>, release lockKey s)
                   | Some newCredentials \<Rightarrow>
                       if \<not> success r \<or> \<not> truthy newCredentials
                       then (c\<lparr>phase := Done (Inr (r\<lparr>response := None\<rparr>))\<rparr>, release lockKey s)
                       else (case encryptConnection key encrypt
                                    (connection\<lparr>credentials := newCredentials\<rparr>) of
                               Inl e \<Rightarrow> (c\<lparr>phase := Done (Inr refresh_failed)\<rparr>,
                                         release lockKey s)
                             | Inr stored \<Rightarrow>
                                 (c\<lparr>call_connection := connection\<lparr>credentials := newCredentials\<rparr>,
                                    phase := InUpdate newCredentials stored\<rparr>, s))))
         | InUpdate newCredentials stored \<Rightarrow>
             (c\<lparr>phase := Done (Inr \<lparr>success = True, error = None,
                                     response = Some newCredentials\<rparr>)\<rparr>,
              release lockKey
                (s\<lparr>connections_table :=
                     map (\<lambda>r. if keyed (connection_id connection) (provider_config_key connection)
                                      (environment_id connection) r
                                then patch_row stored r else r) (connections_table s)\<rparr>))
         | Done r \<Rightarrow> (c, s))"

text \<open>The step of the \<open>i\<close>-th call in a world, and a run along a schedule of call indices.\<close>

definition step ::
  "(string \<Rightarrow> bool) \<Rightarrow> (ProviderConfig \<Rightarrow> 'c Connection \<Rightarrow> bool) \<Rightarrow> ('c jsval \<Rightarrow> int \<Rightarrow> bool)
     \<Rightarrow> (nat \<Rightarrow> 'c Connection \<Rightarrow> ProviderConfig \<Rightarrow> Template \<Rightarrow> 'c provider_outcome)
     \<Rightarrow> string \<Rightarrow> 'c encrypt_fn \<Rightarrow> ProviderConfig \<Rightarrow> Template \<Rightarrow> nat \<Rightarrow> bool
     \<Rightarrow> nat \<Rightarrow> 'c world \<Rightarrow> 'c world" where
  "step sit ite isExp getNew key encrypt providerConfig template env instantRefresh i w =
     (if i < length (callers w)
      then (case call_step sit ite isExp getNew key encrypt providerConfig template env
                   instantRefresh (callers w ! i) (shared w) of
              (c', s') \<Rightarrow> w\<lparr>callers := (callers w)[i := c'], shared := s'\<rparr>)
      else w)"

definition run ::
  "(string \<Rightarrow> bool) \<Rightarrow> (ProviderConfig \<Rightarrow> 'c Connection \<Rightarrow> bool) \<Rightarrow> ('c jsval \<Rightarrow> int \<Rightarrow> bool)
     \<Rightarrow> (nat \<Rightarrow> 'c Connection \<Rightarrow> ProviderConfig \<Rightarrow> Template \<Rightarrow> 'c provider_outcome)
     \<Rightarrow> string \<Rightarrow> 'c encrypt_fn \<Rightarrow> ProviderConfig \<Rightarrow> Template \<Rightarrow> nat \<Rightarrow> bool
     \<Rightarrow> nat list \<Rightarrow> 'c world \<Rightarrow> 'c world" where
  "run sit ite isExp getNew key encrypt providerConfig template env instantRefresh schedule w =
     fold (step sit ite isExp getNew key encrypt providerConfig template env instantRefresh)
       schedule w"

text \<open>The calls launched on given connection objects, none started, over a shared state.\<close>

definition launch :: "'c Connection list \<Rightarrow> 'c refresh_state \<Rightarrow> 'c world" where
  "launch connections' s =
     \<lparr>callers = map (\<lambda>c. \<lparr>call_connection = c, phase = Start, called = False\<rparr>) connections',
      shared = s\<rparr>"

text \<open>A call is refreshing while its provider call or its update is in flight.\<close>

fun refreshing :: "'c phase \<Rightarrow> bool" where
  "refreshing (InCall n) = True"
| "refreshing (InUpdate newCredentials stored) = True"
| "refreshing p = False"

definition refreshing_under ::
  "nat \<Rightarrow> nat \<times> string \<times> string \<Rightarrow> 'c caller \<Rightarrow> bool" where
  "refreshing_under env lockKey c =
     (refreshing (phase c) \<and> refresh_lock_key env (call_connection c) = lockKey)"

subsection \<open>Example data for refreshes\<close>

text \<open>
  Modelled from the spec: a token is expired when \<^verbatim>\<open>expires_at\<close> is within the buffer (in
  seconds) of now.
\<close>

fun isTokenExpired_at :: "int \<Rightarrow> sealed jsval \<Rightarrow> int \<Rightarrow> bool" where
  "isTokenExpired_at now (JDate (Some t)) bufferInSeconds = (t - now < bufferInSeconds * 1000)"
| "isTokenExpired_at now v bufferInSeconds = False"

definition no_introspection :: "string \<Rightarrow> bool" where
  "no_introspection p = False"

definition not_introspected :: "ProviderConfig \<Rightarrow> sealed Connection \<Rightarrow> bool" where
  "not_introspected providerConfig connection = False"

definition github_config :: ProviderConfig where
  "github_config =
     \<lparr>provider = ''github'', oauth_client_id = Some ''id-1'', oauth_client_secret = Some ''s-1'',
      oauth_scopes = Some ''repo,user'', app_link = None\<rparr>"

definition oauth2_template :: Template where
  "oauth2_template =
     \<lparr>auth_mode = OAuth2, token_expiration_buffer = None,
      authorization_url = ''https://provider.example/authorize'',
      token_url = TokenUrl ''https://provider.example/token'',
      disable_pkce = False, authorization_params = None, grant_type = None,
      scope_separator = None, authorization_url_replacements = None\<rparr>"

text \<open>
  Stored OAuth2 credentials that expired at time 1000 (now being 5000000), with and
  without a refresh token, and the credentials the stub provider issues.
\<close>

definition expired_credentials :: "sealed jsval" where
  "expired_credentials =
     JObj [(''type'', JStr ''OAUTH2''), (''access_token'', JStr ''at-1''),
           (''refresh_token'', JStr ''rt-1''), (''expires_at'', JDate (Some 1000))]"

definition expired_credentials_no_refresh_token :: "sealed jsval" where
  "expired_credentials_no_refresh_token =
     JObj [(''type'', JStr ''OAUTH2''), (''access_token'', JStr ''at-1''),
           (''expires_at'', JDate (Some 1000))]"

definition issued_credentials :: "sealed jsval" where
  "issued_credentials =
     JObj [(''type'', JStr ''OAUTH2''), (''access_token'', JStr ''at-2''),
           (''refresh_token'', JStr ''rt-2''), (''expires_at'', JDate (Some 9000000))]"

definition stub_provider ::
  "nat \<Rightarrow> sealed Connection \<Rightarrow> ProviderConfig \<Rightarrow> Template \<Rightarrow> sealed provider_outcome" where
  "stub_provider n connection providerConfig template =
     Responds \<lparr>success = True, error = None, response = Some issued_credentials\<rparr>"

definition stored_state :: "sealed jsval \<Rightarrow> sealed refresh_state" where
  "stored_state creds =
     \<lparr>connections_table = [\<lparr>rid = 4, cols = connection_example creds, deleted = False\<rparr>],
      locks = [], refresh_calls = 0\<rparr>"

text \<open>
  Two calls launched on the same expired connection (stored without encryption), run
  along a schedule.
\<close>

definition two_calls :: "nat list \<Rightarrow> sealed world" where
  "two_calls schedule =
     run no_introspection not_introspected (isTokenExpired_at 5000000) stub_provider
       [] (seal_encrypt [] ''iv-2'') github_config oauth2_template 1 False schedule
       (launch [connection_example expired_credentials, connection_example expired_credentials]
          (stored_state expired_credentials))"

text \<open>A call that has not yet passed \<^verbatim>\<open>tryAcquire\<close>.\<close>

fun pending :: "'c phase \<Rightarrow> bool" where
  "pending Start = True"
| "pending WaitLock = True"
| "pending p = False"

text \<open>
  Two invariants of a run. The lock of a key is held exactly when one call is refreshing
  under that key, and never more than one is. The provider's counter has advanced by the
  number of calls that have called it, and a call that has not passed \<^verbatim>\<open>tryAcquire\<close> has not.
\<close>

definition lock_invariant :: "nat \<Rightarrow> 'c world \<Rightarrow> bool" where
  "lock_invariant env w =
     (\<forall>k. length (filter (refreshing_under env k) (callers w))
            = (if k \<in> set (locks (shared w)) then 1 else 0))"

definition count_invariant :: "nat \<Rightarrow> 'c world \<Rightarrow> bool" where
  "count_invariant n0 w =
     (refresh_calls (shared w) = n0 + length (filter called (callers w))
      \<and> (\<forall>c \<in> set (callers w). pending (phase c) \<longrightarrow> \<not> called c))"

section \<open>Authorization sessions and the OAuth controller\<close>

text \<open>
  The session of an authorization attempt, \<open>session_id\<close> being its \<^verbatim>\<open>id\<close> and
  \<open>session_provider\<close> its \<^verbatim>\<open>provider\<close>.
\<close>

record OAuthSession =
  providerConfigKey :: string
  session_provider :: string
  connectionId :: string
  callbackUrl :: string
  authMode :: AuthModes
  codeVerifier :: string
  session_id :: string
  connectionConfig :: "string \<rightharpoonup> string"
  environmentId :: nat
  webSocketClientId :: "string option"
  requestTokenSecret :: "string option"

text \<open>
  Modelled from the spec: the session store (\<^verbatim>\<open>oAuthSessionService\<close>, not among the sources)
  keeps sessions by id; \<^verbatim>\<open>create\<close> fails when the id already exists, \<^verbatim>\<open>findById\<close> returns the
  session or nothing, \<^verbatim>\<open>delete\<close> is idempotent.
\<close>

type_synonym session_store = "string \<rightharpoonup> OAuthSession"

definition session_create :: "OAuthSession \<Rightarrow> session_store \<Rightarrow> session_store option" where
  "session_create session store =
     (case store (session_id session) of
        None \<Rightarrow> Some (store(session_id session \<mapsto> session))
      | Some existing \<Rightarrow> None)"

definition session_findById :: "string \<Rightarrow> session_store \<Rightarrow> OAuthSession option" where
  "session_findById i store = store i"

definition session_delete :: "string \<Rightarrow> session_store \<Rightarrow> session_store" where
  "session_delete i store = store(i := None)"

text \<open>The errors sent to the client (\<^verbatim>\<open>WSErrBuilder\<close>), and what a request ends in.\<close>

datatype ws_error =
    MissingConnectionId
  | MissingProviderConfigKey
  | MissingHmac
  | InvalidHmac
  | UnknownProviderConfigKey string
  | UnknownProviderTemplate string
  | InvalidProviderConfig string
  | InvalidConnectionConfig string
  | UnknownGrantType string
  | UnknownAuthMode AuthModes
  | TokenError
  | UnknownError

text \<open>
  A redirect. For OAuth2 it is given by the parameters handed to \<^verbatim>\<open>authorizeURL\<close> of the
  OAuth2 client library, which renders them into the query of the URL, and the literal
  replacements applied to the rendered text; for an app by the interpolated URL and the
  \<^verbatim>\<open>state\<close> appended; for OAuth1 by the URL the OAuth1 client returns.
\<close>

datatype redirect =
    OAuth2Redirect "string \<rightharpoonup> string" "(string \<times> string) list"
  | AppRedirect string string
  | OAuth1Redirect string

datatype response = NotifyErr ws_error | Redirect redirect

text \<open>A query parameter is truthy when it is present and not empty.\<close>

definition present :: "string option \<Rightarrow> bool" where
  "present p = (case p of None \<Rightarrow> False | Some s \<Rightarrow> s \<noteq> [])"

subsection \<open>PKCE\<close>

text \<open>
  \<^verbatim>\<open>.replace(/\+/g, '-').replace(/\//g, '_').replace(/=+$/, '')\<close> on the base64 digest.
\<close>

definition base64url :: "string \<Rightarrow> string" where
  "base64url b =
     rev (dropWhile (\<lambda>c. c = CHR ''='')
            (rev (map (\<lambda>c. if c = CHR ''/'' then CHR ''_'' else c)
                    (map (\<lambda>c. if c = CHR ''+'' then CHR ''-'' else c) b))))"

text \<open>\<^verbatim>\<open>s.split(',').join(separator)\<close>.\<close>

definition split_join :: "string \<Rightarrow> string \<Rightarrow> string" where
  "split_join separator s = concat (map (\<lambda>c. if c = CHR '','' then separator else [c]) s)"

text \<open>
  \<^verbatim>\<open>{ ...a, ...b }\<close> where a value of \<open>b\<close> may be \<^verbatim>\<open>undefined\<close> (\<open>Some None\<close>), followed by the
  removal of the keys whose value is \<^verbatim>\<open>undefined\<close>.
\<close>

definition spread_defined ::
  "(string \<rightharpoonup> string) \<Rightarrow> (string \<rightharpoonup> string option) \<Rightarrow> (string \<rightharpoonup> string)" where
  "spread_defined a b = (\<lambda>k. case b k of None \<Rightarrow> a k | Some v \<Rightarrow> v)"

text \<open>
  \<^verbatim>\<open>oauth2Request\<close>. Parameters: \<open>missesInterpolationParam\<close> (of the server's \<^verbatim>\<open>utils.js\<close>),
  \<open>clientConfig\<close>, false where building the OAuth2 client throws, and \<open>sha256_base64\<close>, the
  SHA-256 digest of a string in base64 (\<^verbatim>\<open>node:crypto\<close>). A token URL that the template
  does not give for OAuth2 is \<^verbatim>\<open>undefined\<close>, on which the interpolation check throws; every
  exception ends in \<^verbatim>\<open>UnknownError\<close>.
\<close>

definition oauth2Request ::
  "(string \<Rightarrow> (string \<rightharpoonup> string) \<Rightarrow> bool)
     \<Rightarrow> (ProviderConfig \<Rightarrow> Template \<Rightarrow> (string \<rightharpoonup> string) \<Rightarrow> bool) \<Rightarrow> (string \<Rightarrow> string)
     \<Rightarrow> Template \<Rightarrow> ProviderConfig \<Rightarrow> OAuthSession \<Rightarrow> (string \<rightharpoonup> string)
     \<Rightarrow> (string \<rightharpoonup> string option) \<Rightarrow> string \<Rightarrow> string option \<Rightarrow> session_store
     \<Rightarrow> response \<times> session_store" where
  "oauth2Request missesInterpolationParam clientConfig sha256_base64
     template providerConfig session connectionConfig' authorizationParams callbackUrl'
     userScope store =
     (if missesInterpolationParam (authorization_url template) connectionConfig'
        then (NotifyErr (InvalidConnectionConfig (authorization_url template)), store)
      else case (case token_url template of
                   TokenUrl u \<Rightarrow> Some u
                 | TokenUrlByMode m \<Rightarrow> map_of m OAuth2) of
        None \<Rightarrow> (NotifyErr UnknownError, store)
      | Some tokenUrl \<Rightarrow>
          if missesInterpolationParam tokenUrl connectionConfig'
            then (NotifyErr (InvalidConnectionConfig tokenUrl), store)
          else if grant_type template = None \<or> grant_type template = Some ''authorization_code''
            then
              (let allAuthParams0 =
                     (case authorization_params template of None \<Rightarrow> Map.empty | Some m \<Rightarrow> m);
                   allAuthParams1 =
                     (if \<not> disable_pkce template
                      then allAuthParams0
                             (''code_challenge'' \<mapsto> base64url (sha256_base64 (codeVerifier session)),
                              ''code_challenge_method'' \<mapsto> ''S256'')
                      else allAuthParams0);
                   allAuthParams2 =
                     (if provider providerConfig = ''slack'' \<and> present userScope
                      then allAuthParams1(''user_scope'' \<mapsto> the userScope)
                      else allAuthParams1);
                   allAuthParams = spread_defined allAuthParams2 authorizationParams
               in case session_create session store of
                    None \<Rightarrow> (NotifyErr UnknownError, store)
                  | Some store' \<Rightarrow>
                      if \<not> clientConfig providerConfig template connectionConfig'
                        then (NotifyErr UnknownError, store')
                      else
                        (Redirect
                           (OAuth2Redirect
                              ([''redirect_uri'' \<mapsto> callbackUrl',
                                ''scope'' \<mapsto>
                                  (case oauth_scopes providerConfig of
                                     None \<Rightarrow> []
                                   | Some scopes \<Rightarrow>
                                       if scopes = [] then []
                                       else split_join
                                              (case scope_separator template of
                                                 None \<Rightarrow> '' ''
                                               | Some sep \<Rightarrow> if sep = [] then '' '' else sep)
                                              scopes),
                                ''state'' \<mapsto> session_id session]
                               ++ allAuthParams)
                              (case authorization_url_replacements template of
                                 None \<Rightarrow> []
                               | Some replacements \<Rightarrow> replacements)),
                         store'))
          else (NotifyErr (UnknownGrantType (the (grant_type template))), store))"

text \<open>
  \<^verbatim>\<open>appRequest\<close>. \<open>interpolateStringFromObject\<close> is a parameter as well. The session's
  connection config is replaced by the authorization parameters and the app's link.
\<close>

definition appRequest ::
  "(string \<Rightarrow> (string \<rightharpoonup> string) \<Rightarrow> bool) \<Rightarrow> (string \<Rightarrow> (string \<rightharpoonup> string) \<Rightarrow> string)
     \<Rightarrow> Template \<Rightarrow> ProviderConfig \<Rightarrow> OAuthSession \<Rightarrow> (string \<rightharpoonup> string option)
     \<Rightarrow> session_store \<Rightarrow> response \<times> session_store" where
  "appRequest missesInterpolationParam interpolateStringFromObject
     template providerConfig session authorizationParams store =
     (let connectionConfig' =
            (spread_defined Map.empty authorizationParams)(''appPublicLink'' := app_link providerConfig);
          session' = session\<lparr>connectionConfig := connectionConfig'\<rparr>
      in if missesInterpolationParam (authorization_url template) connectionConfig'
           then (NotifyErr (InvalidConnectionConfig (authorization_url template)), store)
         else case session_create session' store of
                None \<Rightarrow> (NotifyErr UnknownError, store)
              | Some store' \<Rightarrow>
                  (Redirect (AppRedirect
                               (interpolateStringFromObject (authorization_url template)
                                  connectionConfig')
                               (session_id session')),
                   store'))"

text \<open>
  \<^verbatim>\<open>oauth1Request\<close>. \<open>getOAuthRequestToken\<close> asks the provider for a request token and its
  secret (\<open>None\<close> where it throws); \<open>getAuthorizationURL\<close> builds the URL from the token.
\<close>

definition oauth1Request ::
  "(ProviderConfig \<Rightarrow> Template \<Rightarrow> string \<Rightarrow> (string \<times> string) option) \<Rightarrow> (string \<Rightarrow> string)
     \<Rightarrow> Template \<Rightarrow> ProviderConfig \<Rightarrow> OAuthSession \<Rightarrow> string \<Rightarrow> session_store
     \<Rightarrow> response \<times> session_store" where
  "oauth1Request getOAuthRequestToken getAuthorizationURL
     template config session callbackUrl' store =
     (case getOAuthRequestToken config template
             (callbackUrl' @ ''?state='' @ session_id session) of
        None \<Rightarrow> (NotifyErr TokenError, store)
      | Some (request_token, request_token_secret) \<Rightarrow>
          (case session_create (session\<lparr>requestTokenSecret := Some request_token_secret\<rparr>) store of
             None \<Rightarrow> (NotifyErr UnknownError, store)
           | Some store' \<Rightarrow>
               (Redirect (OAuth1Redirect (getAuthorizationURL request_token)), store')))"

subsection \<open>Starting a flow\<close>

text \<open>
  The collaborators of the controller that are not among the sources, as one record of
  functions: the HMAC service, the config service, the callback URL of an environment,
  the interpolation helpers, the OAuth2 and OAuth1 client libraries, the digest, and the
  two random values drawn for a session (\<^verbatim>\<open>crypto.randomBytes(24).toString('hex')\<close> and
  \<^verbatim>\<open>uuid.v1()\<close>).
\<close>

record services =
  hmac_isEnabled :: "nat \<Rightarrow> bool"
  hmac_verify :: "string \<Rightarrow> nat \<Rightarrow> string \<Rightarrow> string \<Rightarrow> bool"
  getProviderConfig :: "string \<Rightarrow> nat \<Rightarrow> ProviderConfig option"
  getTemplate :: "string \<Rightarrow> Template option"
  getOauthCallbackUrl :: "nat \<Rightarrow> string"
  missesInterpolationParam :: "string \<Rightarrow> (string \<rightharpoonup> string) \<Rightarrow> bool"
  interpolateStringFromObject :: "string \<Rightarrow> (string \<rightharpoonup> string) \<Rightarrow> string"
  simpleOAuth2ClientConfig :: "ProviderConfig \<Rightarrow> Template \<Rightarrow> (string \<rightharpoonup> string) \<Rightarrow> bool"
  sha256_base64 :: "string \<Rightarrow> string"
  getOAuthRequestToken :: "ProviderConfig \<Rightarrow> Template \<Rightarrow> string \<Rightarrow> (string \<times> string) option"
  getAuthorizationURL :: "string \<Rightarrow> string"
  randomBytes_hex :: string
  uuid_v1 :: string

text \<open>
  The request \<^verbatim>\<open>GET /oauth/connect/:providerConfigKey\<close> with its query parsed: \<open>query_params\<close>
  is the connection config (\<^verbatim>\<open>params\<close>), \<open>query_credentials\<close> the credential overrides, both
  empty when the parameter is absent.
\<close>

record AuthorizeRequest =
  param_providerConfigKey :: "string option"
  query_connection_id :: "string option"
  query_ws_client_id :: "string option"
  query_user_scope :: "string option"
  query_params :: "string \<rightharpoonup> string"
  query_authorization_params :: "string \<rightharpoonup> string option"
  query_credentials :: "string \<rightharpoonup> string option"
  query_hmac :: "string option"

text \<open>A value of an object read in a condition: set, not \<^verbatim>\<open>undefined\<close> and not empty.\<close>

definition override :: "(string \<rightharpoonup> string option) \<Rightarrow> string \<Rightarrow> string option" where
  "override m k = (case m k of Some (Some v) \<Rightarrow> if v \<noteq> [] then Some v else None | _ \<Rightarrow> None)"

text \<open>
  The provider config after the overrides of the request: client id and secret from the
  credential overrides, scopes from the connection config.
\<close>

definition apply_overrides ::
  "AuthorizeRequest \<Rightarrow> ProviderConfig \<Rightarrow> ProviderConfig" where
  "apply_overrides req config =
     (let config1 = (case override (query_credentials req) ''oauth_client_id_override'' of
                       None \<Rightarrow> config
                     | Some v \<Rightarrow> config\<lparr>oauth_client_id := Some v\<rparr>);
          config2 = (case override (query_credentials req) ''oauth_client_secret_override'' of
                       None \<Rightarrow> config1
                     | Some v \<Rightarrow> config1\<lparr>oauth_client_secret := Some v\<rparr>)
      in case query_params req ''oauth_scopes_override'' of
           None \<Rightarrow> config2
         | Some v \<Rightarrow> if v \<noteq> [] then config2\<lparr>oauth_scopes := Some v\<rparr> else config2)"

text \<open>
  The session \<^verbatim>\<open>oauthRequest\<close> builds: the user scope is written into the connection config,
  and the overridden client id and secret are added to the session's copy of it.
\<close>

definition request_connectionConfig :: "AuthorizeRequest \<Rightarrow> (string \<rightharpoonup> string)" where
  "request_connectionConfig req =
     (if present (query_user_scope req)
      then (query_params req)(''user_scope'' := query_user_scope req)
      else query_params req)"

definition build_session ::
  "services \<Rightarrow> nat \<Rightarrow> AuthorizeRequest \<Rightarrow> string \<Rightarrow> string \<Rightarrow> ProviderConfig \<Rightarrow> Template
     \<Rightarrow> OAuthSession" where
  "build_session svc env req key cid config template =
     (let cc0 = request_connectionConfig req;
          cc1 = (case override (query_credentials req) ''oauth_client_id_override'' of
                   None \<Rightarrow> cc0 | Some v \<Rightarrow> cc0(''oauth_client_id_override'' \<mapsto> v));
          cc2 = (case override (query_credentials req) ''oauth_client_secret_override'' of
                   None \<Rightarrow> cc1 | Some v \<Rightarrow> cc1(''oauth_client_secret_override'' \<mapsto> v))
      in \<lparr>providerConfigKey = key, session_provider = provider config, connectionId = cid,
          callbackUrl = getOauthCallbackUrl svc env, authMode = auth_mode template,
          codeVerifier = randomBytes_hex svc, session_id = uuid_v1 svc,
          connectionConfig = cc2, environmentId = env,
          webSocketClientId = query_ws_client_id req, requestTokenSecret = None\<rparr>)"

text \<open>\<^verbatim>\<open>oauthRequest\<close>: the checks in their order, then the dispatch on the template's mode.\<close>

definition oauthRequest ::
  "services \<Rightarrow> nat \<Rightarrow> AuthorizeRequest \<Rightarrow> session_store \<Rightarrow> response \<times> session_store" where
  "oauthRequest svc env req store =
     (case query_connection_id req of
        None \<Rightarrow> (NotifyErr MissingConnectionId, store)
      | Some cid \<Rightarrow>
     (case param_providerConfigKey req of
        None \<Rightarrow> (NotifyErr MissingProviderConfigKey, store)
      | Some key \<Rightarrow>
     if hmac_isEnabled svc env \<and> \<not> present (query_hmac req)
       then (NotifyErr MissingHmac, store)
     else if hmac_isEnabled svc env \<and> \<not> hmac_verify svc (the (query_hmac req)) env key cid
       then (NotifyErr InvalidHmac, store)
     else
     (case getProviderConfig svc key env of
        None \<Rightarrow> (NotifyErr (UnknownProviderConfigKey key), store)
      | Some stored_config \<Rightarrow>
     (case getTemplate svc (provider stored_config) of
        None \<Rightarrow> (NotifyErr (UnknownProviderTemplate (provider stored_config)), store)
      | Some template \<Rightarrow>
     (let config = apply_overrides req stored_config;
          session = build_session svc env req key cid stored_config template
      in if auth_mode template \<noteq> App
            \<and> (oauth_client_id config = None \<or> oauth_client_secret config = None
                \<or> oauth_scopes config = None)
           then (NotifyErr (InvalidProviderConfig key), store)
         else if auth_mode template = OAuth2
           then oauth2Request (missesInterpolationParam svc) (simpleOAuth2ClientConfig svc)
                  (sha256_base64 svc) template config session (request_connectionConfig req)
                  (query_authorization_params req) (getOauthCallbackUrl svc env)
                  (query_user_scope req) store
         else if auth_mode template = App \<or> auth_mode template = Custom
           then appRequest (missesInterpolationParam svc) (interpolateStringFromObject svc)
                  template config session (query_authorization_params req) store
         else if auth_mode template = OAuth1
           then oauth1Request (getOAuthRequestToken svc) (getAuthorizationURL svc)
                  template config session (getOauthCallbackUrl svc env) store
         else (NotifyErr (UnknownAuthMode (auth_mode template)), store))))))"

subsection \<open>The callback\<close>

text \<open>
  The request \<^verbatim>\<open>GET /oauth/callback\<close>, as far as \<^verbatim>\<open>oauthCallback\<close> itself reads it, and what
  the handler ends in: the redirect to the referrer of an app installation, a reported
  error without or with an unknown state, the hand-over to \<^verbatim>\<open>oauth2Callback\<close> or
  \<^verbatim>\<open>oauth1Callback\<close> (where the token exchange and the upsert of the connection take
  place), or an error sent to the client.
\<close>

record CallbackRequest =
  query_state :: "string option"
  query_installation_id :: "string option"
  query_setup_action :: "string option"

datatype callback_outcome =
    RedirectToReferer
  | NoStateFound
  | NoSessionFound string
  | ToOAuth2Callback Template OAuthSession
  | ToOAuth1Callback Template OAuthSession
  | CallbackNotifyErr ws_error

definition oauthCallback ::
  "(string \<Rightarrow> Template option) \<Rightarrow> CallbackRequest \<Rightarrow> session_store
     \<Rightarrow> callback_outcome \<times> session_store" where
  "oauthCallback getTemplate' req store =
     (if \<not> present (query_state req) \<and> present (query_installation_id req)
         \<and> present (query_setup_action req)
        then (RedirectToReferer, store)
      else case query_state req of
             None \<Rightarrow> (NoStateFound, store)
           | Some state \<Rightarrow>
               (case session_findById state store of
                  None \<Rightarrow> (NoSessionFound state, store)
                | Some session \<Rightarrow>
                    (let store' = session_delete state store
                     in case getTemplate' (session_provider session) of
                          None \<Rightarrow> (CallbackNotifyErr UnknownError, store')
                        | Some template \<Rightarrow>
                            if authMode session = OAuth2 \<or> authMode session = Custom
                              then (ToOAuth2Callback template session, store')
                            else if authMode session = OAuth1
                              then (ToOAuth1Callback template session, store')
                            else (CallbackNotifyErr (UnknownAuthMode (authMode session)),
                                  store'))))"

text \<open>Whether a callback ended in a protocol handler.\<close>

fun dispatched :: "callback_outcome \<Rightarrow> bool" where
  "dispatched (ToOAuth2Callback template session) = True"
| "dispatched (ToOAuth1Callback template session) = True"
| "dispatched outcome = False"

subsection \<open>Example data for the controller\<close>

definition app_template :: Template where
  "app_template =
     \<lparr>auth_mode = App, token_expiration_buffer = None,
      authorization_url = ''https://provider.example/apps/install'',
      token_url = TokenUrl ''https://provider.example/app/token'',
      disable_pkce = False, authorization_params = None, grant_type = None,
      scope_separator = None, authorization_url_replacements = None\<rparr>"

definition config_without_client_id :: ProviderConfig where
  "config_without_client_id =
     \<lparr>provider = ''github-app'', oauth_client_id = None, oauth_client_secret = Some ''s-1'',
      oauth_scopes = Some ''repo'', app_link = Some ''https://provider.example/apps/a''\<rparr>"

text \<open>
  Services for the closed examples: one provider config under the key \<open>gh\<close>, one template,
  HMAC switched off, URLs without placeholders, and a fixed digest.
\<close>

definition services_example :: "ProviderConfig \<Rightarrow> Template \<Rightarrow> services" where
  "services_example config template =
     \<lparr>hmac_isEnabled = (\<lambda>env. False),
      hmac_verify = (\<lambda>hmac env key cid. False),
      getProviderConfig = (\<lambda>key env. if key = ''gh'' then Some config else None),
      getTemplate = (\<lambda>p. if p = provider config then Some template else None),
      getOauthCallbackUrl = (\<lambda>env. ''https://nango.example/oauth/callback''),
      missesInterpolationParam = (\<lambda>url cfg. False),
      interpolateStringFromObject = (\<lambda>url cfg. url),
      simpleOAuth2ClientConfig = (\<lambda>config template cfg. True),
      sha256_base64 = (\<lambda>v. ''q83v+/EjRWeJA=''),
      getOAuthRequestToken = (\<lambda>config template url. None),
      getAuthorizationURL = (\<lambda>token. []),
      randomBytes_hex = ''00112233445566778899aabbccddeeff0011223344556677'',
      uuid_v1 = ''session-1''\<rparr>"

definition request_example :: "(string \<rightharpoonup> string option) \<Rightarrow> AuthorizeRequest" where
  "request_example authorizationParams =
     \<lparr>param_providerConfigKey = Some ''gh'', query_connection_id = Some ''c1'',
      query_ws_client_id = None, query_user_scope = None, query_params = Map.empty,
      query_authorization_params = authorizationParams, query_credentials = Map.empty,
      query_hmac = None\<rparr>"

definition session_example :: OAuthSession where
  "session_example =
     \<lparr>providerConfigKey = ''gh'', session_provider = ''github'', connectionId = ''c1'',
      callbackUrl = ''https://nango.example/oauth/callback'', authMode = OAuth2,
      codeVerifier = ''00112233445566778899aabbccddeeff0011223344556677'',
      session_id = ''session-1'', connectionConfig = Map.empty, environmentId = 1,
      webSocketClientId = None, requestTokenSecret = None\<rparr>"

definition callback_example :: CallbackRequest where
  "callback_example =
     \<lparr>query_state = Some ''session-1'', query_installation_id = None,
      query_setup_action = None\<rparr>"

section \<open>Verified properties\<close>

subsection \<open>JSON round trip\<close>

lemma map_roundtrip_list:
  assumes "\<And>x. x \<in> set xs \<Longrightarrow> \<exists>d. f x = Some d \<and> g d = x"
  shows "map g (map (\<lambda>r. case r of None \<Rightarrow> e | Some j \<Rightarrow> j) (map f xs)) = xs"
  using assms
proof (induction xs)
  case Nil
  then show ?case by simp
next
  case (Cons a xs)
  from Cons.prems [of a] obtain d where d: "f a = Some d" "g d = a" by auto
  have "map g (map (\<lambda>r. case r of None \<Rightarrow> e | Some j \<Rightarrow> j) (map f xs)) = xs"
    using Cons by simp
  with d show ?case by simp
qed

lemma map_roundtrip_props:
  assumes "\<And>k v. (k, v) \<in> set kvs \<Longrightarrow> \<exists>d. f v = Some d \<and> g d = v"
  shows "map (map_prod id g)
           (List.map_filter (\<lambda>(k, r). map_option (Pair k) r) (map (map_prod id f) kvs)) = kvs"
  using assms
proof (induction kvs)
  case Nil
  then show ?case by (simp add: List.map_filter_simps)
next
  case (Cons kv kvs)
  obtain k v where kv: "kv = (k, v)" by (cases kv)
  from Cons.prems [of k v] kv obtain d where d: "f v = Some d" "g d = v" by auto
  have "\<And>k v. (k, v) \<in> set kvs \<Longrightarrow> \<exists>d. f v = Some d \<and> g d = v"
    using Cons.prems by auto
  from Cons.IH [OF this]
  have "map (map_prod id g)
          (List.map_filter (\<lambda>(k, r). map_option (Pair k) r) (map (map_prod id f) kvs)) = kvs" .
  with kv d show ?case by (simp add: List.map_filter_simps id_def)
qed

lemma json_roundtrip:
  "json_value v \<Longrightarrow> \<exists>d. to_json v = Some d \<and> JSON_parse d = v"
proof (induction v)
  case (JArr xs)
  have "\<And>x. x \<in> set xs \<Longrightarrow> \<exists>d. to_json x = Some d \<and> JSON_parse d = x"
    using JArr by (auto simp: list_all_iff)
  from map_roundtrip_list [of xs to_json JSON_parse DNull, OF this]
  show ?case by simp
next
  case (JObj kvs)
  have "\<And>k v. (k, v) \<in> set kvs \<Longrightarrow> \<exists>d. to_json v = Some d \<and> JSON_parse d = v"
    using JObj by (fastforce simp: list_all_iff)
  from map_roundtrip_props [of kvs to_json JSON_parse, OF this]
  show ?case by simp
qed simp_all

lemma seal_roundtrip:
  "(case seal_encrypt key iv p of (ct, iv', tag) \<Rightarrow> seal_decrypt key ct iv' tag) = Some p"
  by (simp add: seal_encrypt_def)

lemma envelope_roundtrip_text:
  assumes cipher: "(case encrypt plaintext of (ct, iv, tag) \<Rightarrow> decrypt ct iv tag) = Some plaintext"
    and key: "shouldEncrypt key"
    and str: "JSON_stringify (credentials c) = Some plaintext"
  shows "\<exists>c'. envelope_roundtrip key encrypt decrypt c = Inr (Some c')
               \<and> credentials c' = JSON_parse plaintext"
proof -
  obtain ct iv tag where e: "encrypt plaintext = (ct, iv, tag)" by (cases "encrypt plaintext")
  with cipher have d: "decrypt ct iv tag = Some plaintext" by simp
  show ?thesis
    using key str e d
    by (simp add: envelope_roundtrip_def encryptConnection_def decryptConnection_def js_prop_def)
qed

subsection \<open>Rows stored without encryption\<close>

text \<open>
  C10. A stored row whose \<^verbatim>\<open>credentials_iv\<close> or \<^verbatim>\<open>credentials_tag\<close> is null is returned by
  \<^verbatim>\<open>decryptConnection\<close> unchanged, whatever the cipher (and so whatever key is
  configured): \<open>decrypt\<close> is not consulted, and no decryption failure can arise.
\<close>

theorem decryptConnection_plain_row:
  "credentials_iv conn = None \<or> credentials_tag conn = None
   \<Longrightarrow> decryptConnection decrypt (Some conn) = Inr (Some conn)"
  by (auto simp: decryptConnection_def split: option.splits)

theorem decryptConnection_plain_row_witness:
  "(credentials_iv (connection_example raw_oauth2_example) = None
      \<or> credentials_tag (connection_example raw_oauth2_example) = None)
   \<and> decryptConnection (seal_decrypt ''secret'') (Some (connection_example raw_oauth2_example))
       = Inr (Some (connection_example raw_oauth2_example))"
  using decryptConnection_plain_row
          [of "connection_example raw_oauth2_example" "seal_decrypt ''secret''"]
  by (simp add: connection_example_def)

subsection \<open>The credential envelope\<close>

text \<open>
  C6, as stated, fails. \<^verbatim>\<open>parseRawCredentials\<close> hands over OAuth2 credentials whose
  \<^verbatim>\<open>expires_at\<close> is a \<^verbatim>\<open>Date\<close>; the envelope encrypts \<^verbatim>\<open>JSON.stringify(credentials)\<close> and
  decryption ends in \<^verbatim>\<open>JSON.parse\<close>, so the \<^verbatim>\<open>Date\<close> comes back as its ISO string and the
  credentials returned differ from the credentials put in.
\<close>

theorem envelope_roundtrip_date_counterexample:
  "map_sum (\<lambda>e. e) (map_option credentials)
     (envelope_roundtrip ''k'' (seal_encrypt ''k'' ''iv-1'') (seal_decrypt ''k'')
        (connection_example dated_oauth2_example))
   = Inr (Some (JObj [(''type'', JStr ''OAUTH2''), (''access_token'', JStr ''at-1''),
                      (''refresh_token'', JStr ''rt-1''),
                      (''expires_at'', JStr (toISOString 1700000000000)),
                      (''raw'', raw_oauth2_example)]))
   \<and> JObj [(''type'', JStr ''OAUTH2''), (''access_token'', JStr ''at-1''),
            (''refresh_token'', JStr ''rt-1''),
            (''expires_at'', JStr (toISOString 1700000000000)),
            (''raw'', raw_oauth2_example)]
       \<noteq> credentials (connection_example dated_oauth2_example)"
  by (simp add: envelope_roundtrip_def encryptConnection_def decryptConnection_def
        shouldEncrypt_def JSON_stringify_def connection_example_def dated_oauth2_example_def
        raw_oauth2_example_def seal_encrypt_def js_prop_def List.map_filter_simps)

text \<open>
  C6, amended. For a cipher whose \<open>decrypt\<close> opens what its \<open>encrypt\<close> produced, and with
  an encryption key configured, \<^verbatim>\<open>decryptConnection(encryptConnection(connection))\<close>
  returns a connection whose credentials are \<^verbatim>\<open>JSON.parse(JSON.stringify(credentials))\<close>
  of the input: equal to the input credentials whenever these are JSON values (no
  \<^verbatim>\<open>Date\<close>, no \<^verbatim>\<open>undefined\<close> inside). With no key configured \<^verbatim>\<open>encryptConnection\<close> returns
  the connection unchanged, and \<^verbatim>\<open>decryptConnection\<close> returns a connection without IV or
  tag unchanged.
\<close>

theorem envelope_roundtrip_json:
  assumes cipher: "\<And>p. (case encrypt p of (ct, iv, tag) \<Rightarrow> decrypt ct iv tag) = Some p"
  shows "(shouldEncrypt key \<and> JSON_stringify (credentials c) = Some plaintext
            \<longrightarrow> (\<exists>c'. envelope_roundtrip key encrypt decrypt c = Inr (Some c')
                      \<and> credentials c' = JSON_parse plaintext))
       \<and> (shouldEncrypt key \<and> json_value (credentials c)
            \<longrightarrow> (\<exists>c'. envelope_roundtrip key encrypt decrypt c = Inr (Some c')
                      \<and> credentials c' = credentials c))
       \<and> (\<not> shouldEncrypt key
            \<longrightarrow> encryptConnection key encrypt c = Inr c
                \<and> (credentials_iv c = None \<or> credentials_tag c = None
                      \<longrightarrow> envelope_roundtrip key encrypt decrypt c = Inr (Some c)))"
proof (intro conjI impI)
  assume "shouldEncrypt key \<and> JSON_stringify (credentials c) = Some plaintext"
  then show "\<exists>c'. envelope_roundtrip key encrypt decrypt c = Inr (Some c')
                  \<and> credentials c' = JSON_parse plaintext"
    using envelope_roundtrip_text
            [where encrypt = encrypt and decrypt = decrypt and plaintext = plaintext, OF cipher]
    by blast
next
  assume a: "shouldEncrypt key \<and> json_value (credentials c)"
  then obtain d where d: "JSON_stringify (credentials c) = Some d" "JSON_parse d = credentials c"
    using json_roundtrip [of "credentials c"] by (auto simp: JSON_stringify_def)
  from envelope_roundtrip_text
         [where encrypt = encrypt and decrypt = decrypt and plaintext = d, OF cipher _ d(1)] a d(2)
  show "\<exists>c'. envelope_roundtrip key encrypt decrypt c = Inr (Some c')
              \<and> credentials c' = credentials c"
    by auto
next
  assume "\<not> shouldEncrypt key"
  then show "encryptConnection key encrypt c = Inr c"
    by (simp add: encryptConnection_def)
next
  assume "\<not> shouldEncrypt key" and "credentials_iv c = None \<or> credentials_tag c = None"
  then show "envelope_roundtrip key encrypt decrypt c = Inr (Some c)"
    by (auto simp: envelope_roundtrip_def encryptConnection_def decryptConnection_def
             split: option.splits)
qed

theorem envelope_roundtrip_json_witness:
  "shouldEncrypt ''k'' \<and> json_value (credentials (connection_example raw_oauth2_example))
   \<and> (\<exists>c'. envelope_roundtrip ''k'' (seal_encrypt ''k'' ''iv-1'') (seal_decrypt ''k'')
               (connection_example raw_oauth2_example) = Inr (Some c')
            \<and> credentials c' = raw_oauth2_example)
   \<and> \<not> shouldEncrypt []
   \<and> credentials_iv (connection_example raw_oauth2_example) = None
   \<and> envelope_roundtrip [] (seal_encrypt [] ''iv-1'') (seal_decrypt [])
        (connection_example raw_oauth2_example)
       = Inr (Some (connection_example raw_oauth2_example))"
proof -
  have k: "shouldEncrypt ''k''" and nk: "\<not> shouldEncrypt []"
    by (simp_all add: shouldEncrypt_def)
  have j: "json_value (credentials (connection_example raw_oauth2_example))"
    by (simp add: connection_example_def raw_oauth2_example_def)
  have iv: "credentials_iv (connection_example raw_oauth2_example) = None"
    by (simp add: connection_example_def)
  have c: "credentials (connection_example raw_oauth2_example) = raw_oauth2_example"
    by (simp add: connection_example_def)
  from envelope_roundtrip_json
         [where encrypt = "seal_encrypt ''k'' ''iv-1''" and decrypt = "seal_decrypt ''k''"
            and key = "''k''" and c = "connection_example raw_oauth2_example",
          OF seal_roundtrip] k j c
  have 1: "\<exists>c'. envelope_roundtrip ''k'' (seal_encrypt ''k'' ''iv-1'') (seal_decrypt ''k'')
               (connection_example raw_oauth2_example) = Inr (Some c')
            \<and> credentials c' = raw_oauth2_example"
    by simp
  from envelope_roundtrip_json
         [where encrypt = "seal_encrypt [] ''iv-1''" and decrypt = "seal_decrypt []"
            and key = "[]" and c = "connection_example raw_oauth2_example",
          OF seal_roundtrip] nk iv
  have 2: "envelope_roundtrip [] (seal_encrypt [] ''iv-1'') (seal_decrypt [])
             (connection_example raw_oauth2_example)
           = Inr (Some (connection_example raw_oauth2_example))"
    by simp
  from k j 1 nk iv 2 show ?thesis by blast
qed

subsection \<open>The credential parser\<close>




subsection \<open>Lookup and upsert on the connections table\<close>

lemma to_json_None: "(to_json v = None) = (v = JUndefined)"
  by (cases v) simp_all

lemma fold_max_ge: "x \<le> fold max xs (x::nat)"
  by (induction xs arbitrary: x) (auto intro: order_trans [OF max.cobounded2])

lemma fold_max_mem: "y \<in> set xs \<Longrightarrow> y \<le> fold max xs (x::nat)"
proof (induction xs arbitrary: x)
  case Nil then show ?case by simp
next
  case (Cons a xs)
  show ?case
  proof (cases "y = a")
    case True
    have "max a x \<le> fold max xs (max a x)" by (rule fold_max_ge)
    with True show ?thesis by simp
  next
    case False
    with Cons show ?thesis by simp
  qed
qed

lemma fresh_id_new: "r \<in> set table \<Longrightarrow> rid r \<noteq> fresh_id table"
  using fold_max_mem [of "rid r" "map rid table" 0] by (auto simp: fresh_id_def)

lemma live_with_key_live:
  "live_with_key table cid pck env = live_with_key (filter (\<lambda>r. \<not> deleted r) table) cid pck env"
  by (auto simp: live_with_key_def keyed_def intro: filter_cong)

lemma encryptConnection_result:
  assumes "JSON_stringify (credentials c) = Some doc" and "encrypt doc = (ct, iv, tag)"
  shows "encryptConnection key encrypt c
         = Inr (if key = [] then c
                else c\<lparr>credentials := JObj [(''encrypted_credentials'', JCipher ct)],
                       credentials_iv := Some iv, credentials_tag := Some tag\<rparr>)"
  using assms by (simp add: encryptConnection_def shouldEncrypt_def)

lemma checkIfConnectionExists_found:
  assumes "checkIfConnectionExists table cid pck env = Some (i, m)"
  shows "\<exists>r. r \<in> set table \<and> rid r = i \<and> metadata (cols r) = m \<and> \<not> deleted r
             \<and> connection_id (cols r) = cid \<and> provider_config_key (cols r) = pck
             \<and> environment_id (cols r) = env"
proof (cases "live_with_key table cid pck env")
  case Nil
  with assms show ?thesis by (simp add: checkIfConnectionExists_def)
next
  case (Cons r rest)
  then have "r \<in> set (filter (keyed cid pck env) table)"
    by (simp add: live_with_key_def)
  then have "r \<in> set table" "keyed cid pck env r" by simp_all
  moreover from assms Cons have "rid r = i" "metadata (cols r) = m"
    by (simp_all add: checkIfConnectionExists_def)
  ultimately show ?thesis by (auto simp: keyed_def)
qed

lemma upsert_updated:
  assumes creds: "JSON_stringify creds = Some doc"
    and cipher: "encrypt doc = (ct, iv, tag)"
    and some: "live_with_key table cid pck env = r # rest"
  shows "upsertConnection key encrypt getId now table cid pck creds cfg env meta
         = Inr (map (\<lambda>x. if rid x = rid r \<and> \<not> deleted x
                          then x\<lparr>cols :=
                                 \<lparr>row_id = row_id (cols x), connection_id = cid,
                                  provider_config_key = pck, environment_id = env,
                                  config_id = getId env pck,
                                  credentials =
                                    (if key = [] then creds
                                     else JObj [(''encrypted_credentials'', JCipher ct)]),
                                  credentials_iv =
                                    (if key = [] then credentials_iv (cols x) else Some iv),
                                  credentials_tag =
                                    (if key = [] then credentials_tag (cols x) else Some tag),
                                  connection_config = cfg,
                                  metadata =
                                    (if truthy meta then meta
                                     else if truthy (metadata (cols r)) then metadata (cols r)
                                     else JNull),
                                  updated_at = Some now\<rparr>\<rparr>
                          else x) table,
                rid r, OVERRIDE)"
  using some
  by (simp add: upsertConnection_def checkIfConnectionExists_def update_live_by_id_def
        patch_row_def encryptConnection_result [where encrypt = encrypt and doc = doc and ct = ct and iv = iv
          and tag = tag] cipher creds)

lemma upsert_created:
  assumes creds: "JSON_stringify creds = Some doc"
    and cipher: "encrypt doc = (ct, iv, tag)"
    and none: "live_with_key table cid pck env = []"
  shows "upsertConnection key encrypt getId now table cid pck creds cfg env meta
         = Inr (table @ [\<lparr>rid = fresh_id table,
                          cols = \<lparr>row_id = None, connection_id = cid,
                                  provider_config_key = pck, environment_id = env,
                                  config_id = getId env pck,
                                  credentials =
                                    (if key = [] then creds
                                     else JObj [(''encrypted_credentials'', JCipher ct)]),
                                  credentials_iv = (if key = [] then None else Some iv),
                                  credentials_tag = (if key = [] then None else Some tag),
                                  connection_config = cfg,
                                  metadata = (if truthy meta then meta else JNull),
                                  updated_at = None\<rparr>,
                          deleted = False\<rparr>],
                fresh_id table, CREATION)"
  using none
  by (simp add: upsertConnection_def checkIfConnectionExists_def insert_row_def
        encryptConnection_result [where encrypt = encrypt and doc = doc and ct = ct and iv = iv
          and tag = tag] cipher creds)


lemma upsert_twice_created:
  assumes creds: "JSON_stringify creds = Some doc"
    and cipher: "encrypt doc = (ct, iv, tag)"
    and none: "live_with_key table cid pck env = []"
  shows "upsert_twice key encrypt getId now table cid pck creds cfg env meta
         = Inr (table @ [\<lparr>rid = fresh_id table,
                          cols = \<lparr>row_id = None, connection_id = cid,
                                  provider_config_key = pck, environment_id = env,
                                  config_id = getId env pck,
                                  credentials =
                                    (if key = [] then creds
                                     else JObj [(''encrypted_credentials'', JCipher ct)]),
                                  credentials_iv = (if key = [] then None else Some iv),
                                  credentials_tag = (if key = [] then None else Some tag),
                                  connection_config = cfg,
                                  metadata = (if truthy meta then meta else JNull),
                                  updated_at = Some now\<rparr>,
                          deleted = False\<rparr>],
                (fresh_id table, CREATION), (fresh_id table, OVERRIDE))"
proof -
  let ?new = "\<lparr>rid = fresh_id table,
               cols = \<lparr>row_id = None, connection_id = cid,
                       provider_config_key = pck, environment_id = env,
                       config_id = getId env pck,
                       credentials =
                         (if key = [] then creds
                          else JObj [(''encrypted_credentials'', JCipher ct)]),
                       credentials_iv = (if key = [] then None else Some iv),
                       credentials_tag = (if key = [] then None else Some tag),
                       connection_config = cfg,
                       metadata = (if truthy meta then meta else JNull),
                       updated_at = None\<rparr>,
               deleted = False\<rparr>"
  have first: "upsertConnection key encrypt getId now table cid pck creds cfg env meta
               = Inr (table @ [?new], fresh_id table, CREATION)"
    by (rule upsert_created [where encrypt = encrypt and key = key and getId = getId and now = now and cfg = cfg
          and meta = meta, OF creds cipher none])
  have "keyed cid pck env ?new" by (simp add: keyed_def)
  then have live: "live_with_key (table @ [?new]) cid pck env = ?new # []"
    using none by (simp add: live_with_key_def)
  have others: "map (\<lambda>x. if rid x = fresh_id table \<and> \<not> deleted x then f x else x) table = table"
    for f :: "'a Row \<Rightarrow> 'a Row"
    using fresh_id_new [of _ table] by (intro map_idI) auto
  have second: "upsertConnection key encrypt getId now (table @ [?new]) cid pck creds cfg env meta
                = Inr (table @ [?new\<lparr>cols := (cols ?new)\<lparr>updated_at := Some now\<rparr>\<rparr>],
                       fresh_id table, OVERRIDE)"
    unfolding upsert_updated [where encrypt = encrypt and key = key and getId = getId and now = now and cfg = cfg
          and meta = meta, OF creds cipher live]
    by (simp add: others)
  show ?thesis
    unfolding upsert_twice_def first by (simp add: second)
qed

text \<open>
  C8. \<^verbatim>\<open>upsertConnection\<close> with credentials that serialise to the text \<open>doc\<close>, under a cipher that
  turns \<open>doc\<close> into \<open>(ct, iv, tag)\<close>. If the lookup by natural key finds a row that is not
  soft-deleted, the result is the table with that row rewritten in place and every other
  row as it was, and the operation reported is \<^verbatim>\<open>OVERRIDE\<close> (the spec's \<^verbatim>\<open>updated\<close>) with the
  row's id. The rewritten row keeps its id and holds the key, the config id, the given
  connection config, the given metadata (the stored one where none is given, else \<^verbatim>\<open>null\<close>),
  the time of the call as \<^verbatim>\<open>updated_at\<close>, and the credentials: with an encryption key set,
  the ciphertext \<open>ct\<close> under \<^verbatim>\<open>encrypted_credentials\<close> with \<open>iv\<close> and \<open>tag\<close>; without a key,
  the credentials as given, the IV and tag columns untouched. Otherwise one row with
  these columns is appended under a fresh id and the operation is \<^verbatim>\<open>CREATION\<close> (\<^verbatim>\<open>created\<close>).
  Hence two upserts with the same key and credentials, starting without such a row,
  report \<^verbatim>\<open>CREATION\<close> then \<^verbatim>\<open>OVERRIDE\<close> for the same id and leave the table with that one row
  added, the only live row of the key. A row the lookup finds is a row of the table with
  that key that is not soft-deleted, and the lookup is the same on the table with its
  soft-deleted rows removed.
\<close>

theorem upsertConnection_upsert:
  assumes creds: "JSON_stringify creds = Some doc"
    and cipher: "encrypt doc = (ct, iv, tag)"
  shows "(\<forall>r rest. live_with_key table cid pck env = r # rest \<longrightarrow>
            upsertConnection key encrypt getId now table cid pck creds cfg env meta
            = Inr (map (\<lambda>x. if rid x = rid r \<and> \<not> deleted x
                             then x\<lparr>cols :=
                                    \<lparr>row_id = row_id (cols x), connection_id = cid,
                                     provider_config_key = pck, environment_id = env,
                                     config_id = getId env pck,
                                     credentials =
                                       (if key = [] then creds
                                        else JObj [(''encrypted_credentials'', JCipher ct)]),
                                     credentials_iv =
                                       (if key = [] then credentials_iv (cols x) else Some iv),
                                     credentials_tag =
                                       (if key = [] then credentials_tag (cols x) else Some tag),
                                     connection_config = cfg,
                                     metadata =
                                       (if truthy meta then meta
                                        else if truthy (metadata (cols r)) then metadata (cols r)
                                        else JNull),
                                     updated_at = Some now\<rparr>\<rparr>
                             else x) table,
                   rid r, OVERRIDE))
       \<and> (live_with_key table cid pck env = [] \<longrightarrow>
            upsertConnection key encrypt getId now table cid pck creds cfg env meta
            = Inr (table @ [\<lparr>rid = fresh_id table,
                             cols = \<lparr>row_id = None, connection_id = cid,
                                     provider_config_key = pck, environment_id = env,
                                     config_id = getId env pck,
                                     credentials =
                                       (if key = [] then creds
                                        else JObj [(''encrypted_credentials'', JCipher ct)]),
                                     credentials_iv = (if key = [] then None else Some iv),
                                     credentials_tag = (if key = [] then None else Some tag),
                                     connection_config = cfg,
                                     metadata = (if truthy meta then meta else JNull),
                                     updated_at = None\<rparr>,
                             deleted = False\<rparr>],
                   fresh_id table, CREATION)
            \<and> fresh_id table \<notin> rid ` set table)
       \<and> (live_with_key table cid pck env = [] \<longrightarrow>
            (let row = \<lparr>rid = fresh_id table,
                        cols = \<lparr>row_id = None, connection_id = cid,
                                provider_config_key = pck, environment_id = env,
                                config_id = getId env pck,
                                credentials =
                                  (if key = [] then creds
                                   else JObj [(''encrypted_credentials'', JCipher ct)]),
                                credentials_iv = (if key = [] then None else Some iv),
                                credentials_tag = (if key = [] then None else Some tag),
                                connection_config = cfg,
                                metadata = (if truthy meta then meta else JNull),
                                updated_at = Some now\<rparr>,
                        deleted = False\<rparr>
             in upsert_twice key encrypt getId now table cid pck creds cfg env meta
                = Inr (table @ [row], (fresh_id table, CREATION), (fresh_id table, OVERRIDE))
                \<and> live_with_key (table @ [row]) cid pck env = [row]))
       \<and> (\<forall>i m. checkIfConnectionExists table cid pck env = Some (i, m) \<longrightarrow>
            (\<exists>r. r \<in> set table \<and> rid r = i \<and> metadata (cols r) = m \<and> \<not> deleted r
                \<and> connection_id (cols r) = cid \<and> provider_config_key (cols r) = pck
                \<and> environment_id (cols r) = env))
       \<and> checkIfConnectionExists table cid pck env
           = checkIfConnectionExists (filter (\<lambda>r. \<not> deleted r) table) cid pck env"
    (is "?updated \<and> ?created \<and> ?twice \<and> ?found \<and> ?live")
proof -
  have fresh: "fresh_id table \<notin> rid ` set table"
  proof
    assume "fresh_id table \<in> rid ` set table"
    then obtain x where x: "x \<in> set table" and "rid x = fresh_id table" by auto
    with fresh_id_new [OF x] show False by simp
  qed
  have 1: ?updated
    by (intro allI impI, rule upsert_updated
          [where encrypt = encrypt and key = key and getId = getId and now = now and cfg = cfg
            and meta = meta, OF creds cipher], assumption)
  have 2: ?created
    by (intro impI conjI, rule upsert_created
          [where encrypt = encrypt and key = key and getId = getId and now = now and cfg = cfg
            and meta = meta, OF creds cipher], assumption, rule fresh)
  have 3: ?twice
    unfolding Let_def
  proof (intro impI conjI)
    assume none: "live_with_key table cid pck env = []"
    show "upsert_twice key encrypt getId now table cid pck creds cfg env meta
          = Inr (table @ [\<lparr>rid = fresh_id table,
                           cols = \<lparr>row_id = None, connection_id = cid,
                                   provider_config_key = pck, environment_id = env,
                                   config_id = getId env pck,
                                   credentials =
                                     (if key = [] then creds
                                      else JObj [(''encrypted_credentials'', JCipher ct)]),
                                   credentials_iv = (if key = [] then None else Some iv),
                                   credentials_tag = (if key = [] then None else Some tag),
                                   connection_config = cfg,
                                   metadata = (if truthy meta then meta else JNull),
                                   updated_at = Some now\<rparr>,
                           deleted = False\<rparr>],
                 (fresh_id table, CREATION), (fresh_id table, OVERRIDE))"
      by (rule upsert_twice_created
            [where encrypt = encrypt and key = key and getId = getId and now = now and cfg = cfg
            and meta = meta, OF creds cipher], rule none)
    show "live_with_key
            (table @ [\<lparr>rid = fresh_id table,
                       cols = \<lparr>row_id = None, connection_id = cid,
                               provider_config_key = pck, environment_id = env,
                               config_id = getId env pck,
                               credentials =
                                 (if key = [] then creds
                                  else JObj [(''encrypted_credentials'', JCipher ct)]),
                               credentials_iv = (if key = [] then None else Some iv),
                               credentials_tag = (if key = [] then None else Some tag),
                               connection_config = cfg,
                               metadata = (if truthy meta then meta else JNull),
                               updated_at = Some now\<rparr>,
                       deleted = False\<rparr>]) cid pck env
          = [\<lparr>rid = fresh_id table,
              cols = \<lparr>row_id = None, connection_id = cid,
                      provider_config_key = pck, environment_id = env,
                      config_id = getId env pck,
                      credentials =
                        (if key = [] then creds
                         else JObj [(''encrypted_credentials'', JCipher ct)]),
                      credentials_iv = (if key = [] then None else Some iv),
                      credentials_tag = (if key = [] then None else Some tag),
                      connection_config = cfg,
                      metadata = (if truthy meta then meta else JNull),
                      updated_at = Some now\<rparr>,
              deleted = False\<rparr>]"
      using none by (simp add: live_with_key_def keyed_def)
  qed
  have 4: ?found
    by (intro allI impI, rule checkIfConnectionExists_found)
  have 5: ?live
    using live_with_key_live [of table cid pck env] by (simp add: checkIfConnectionExists_def)
  show ?thesis
    by (rule conjI [OF 1 conjI [OF 2 conjI [OF 3 conjI [OF 4 5]]]])
qed


theorem upsertConnection_upsert_witness:
  "JSON_stringify raw_oauth2_example
     = Some (DObj [(''access_token'', DStr ''at-1''), (''refresh_token'', DStr ''rt-1''),
                   (''expires_in'', DNum 3600)])
   \<and> live_with_key table_example ''c1'' ''gh'' 1 = []
   \<and> upsert_twice ''k'' (seal_encrypt ''k'' ''iv-1'') no_config_id 7 table_example
         ''c1'' ''gh'' raw_oauth2_example [] 1 JUndefined
       = Inr ([\<lparr>rid = 4, cols = connection_example raw_oauth2_example, deleted = True\<rparr>,
               \<lparr>rid = 5,
                cols = \<lparr>row_id = None, connection_id = ''c1'', provider_config_key = ''gh'',
                        environment_id = 1, config_id = None,
                        credentials =
                          JObj [(''encrypted_credentials'',
                                 JCipher (Sealed ''k'' ''iv-1''
                                   (DObj [(''access_token'', DStr ''at-1''),
                                          (''refresh_token'', DStr ''rt-1''),
                                          (''expires_in'', DNum 3600)])))],
                        credentials_iv = Some ''iv-1'', credentials_tag = Some ''kiv-1'',
                        connection_config = [], metadata = JNull, updated_at = Some 7\<rparr>,
                deleted = False\<rparr>],
              (5, CREATION), (5, OVERRIDE))
   \<and> live_with_key live_table_example ''c1'' ''gh'' 1 = live_table_example
   \<and> upsertConnection ''k'' (seal_encrypt ''k'' ''iv-1'') no_config_id 7 live_table_example
         ''c1'' ''gh'' (JObj [(''access_token'', JStr ''at-2'')])
         [(''subdomain'', JStr ''acme'')] 1 JUndefined
       = Inr ([\<lparr>rid = 4,
                cols = \<lparr>row_id = None, connection_id = ''c1'', provider_config_key = ''gh'',
                        environment_id = 1, config_id = None,
                        credentials =
                          JObj [(''encrypted_credentials'',
                                 JCipher (Sealed ''k'' ''iv-1''
                                   (DObj [(''access_token'', DStr ''at-2'')])))],
                        credentials_iv = Some ''iv-1'', credentials_tag = Some ''kiv-1'',
                        connection_config = [(''subdomain'', JStr ''acme'')],
                        metadata = JNull, updated_at = Some 7\<rparr>,
                deleted = False\<rparr>],
              4, OVERRIDE)"
proof -
  let ?doc1 = "DObj [(''access_token'', DStr ''at-1''), (''refresh_token'', DStr ''rt-1''),
                     (''expires_in'', DNum 3600)]"
  let ?doc2 = "DObj [(''access_token'', DStr ''at-2'')] :: sealed json"
  have j1: "JSON_stringify raw_oauth2_example = Some ?doc1"
    by (simp add: JSON_stringify_def raw_oauth2_example_def List.map_filter_def)
  have j2: "JSON_stringify (JObj [(''access_token'', JStr ''at-2'')] :: sealed jsval) = Some ?doc2"
    by (simp add: JSON_stringify_def List.map_filter_def)
  have e1: "seal_encrypt ''k'' ''iv-1'' ?doc1 = (Sealed ''k'' ''iv-1'' ?doc1, ''iv-1'', ''kiv-1'')"
    by (simp add: seal_encrypt_def seal_tag_def)
  have e2: "seal_encrypt ''k'' ''iv-1'' ?doc2 = (Sealed ''k'' ''iv-1'' ?doc2, ''iv-1'', ''kiv-1'')"
    by (simp add: seal_encrypt_def seal_tag_def)
  have l0: "live_with_key table_example ''c1'' ''gh'' 1 = []"
    by (simp add: table_example_def live_with_key_def keyed_def)
  have f: "fresh_id table_example = 5" by (simp add: table_example_def fresh_id_def)
  have l1: "live_with_key live_table_example ''c1'' ''gh'' 1 = live_table_example"
    by (simp add: live_table_example_def live_with_key_def keyed_def connection_example_def)
  have l1': "live_with_key live_table_example ''c1'' ''gh'' 1
             = \<lparr>rid = 4, cols = connection_example raw_oauth2_example, deleted = False\<rparr> # []"
    using l1 by (simp add: live_table_example_def)
  from upsertConnection_upsert
         [where encrypt = "seal_encrypt ''k'' ''iv-1''" and creds = raw_oauth2_example
            and key = "''k''" and getId = no_config_id and now = 7 and cid = "''c1''"
            and pck = "''gh''" and env = 1 and cfg = "[]" and meta = JUndefined
            and table = table_example, OF j1 e1] l0 f
  have 1: "upsert_twice ''k'' (seal_encrypt ''k'' ''iv-1'') no_config_id 7 table_example
         ''c1'' ''gh'' raw_oauth2_example [] 1 JUndefined
       = Inr ([\<lparr>rid = 4, cols = connection_example raw_oauth2_example, deleted = True\<rparr>,
               \<lparr>rid = 5,
                cols = \<lparr>row_id = None, connection_id = ''c1'', provider_config_key = ''gh'',
                        environment_id = 1, config_id = None,
                        credentials =
                          JObj [(''encrypted_credentials'',
                                 JCipher (Sealed ''k'' ''iv-1'' ?doc1))],
                        credentials_iv = Some ''iv-1'', credentials_tag = Some ''kiv-1'',
                        connection_config = [], metadata = JNull, updated_at = Some 7\<rparr>,
                deleted = False\<rparr>],
              (5, CREATION), (5, OVERRIDE))"
    by (simp add: Let_def no_config_id_def table_example_def)
  from upsertConnection_upsert
         [where encrypt = "seal_encrypt ''k'' ''iv-1''"
            and creds = "JObj [(''access_token'', JStr ''at-2'')]"
            and key = "''k''" and getId = no_config_id and now = 7 and cid = "''c1''"
            and pck = "''gh''" and env = 1 and cfg = "[(''subdomain'', JStr ''acme'')]"
            and meta = JUndefined and table = live_table_example, OF j2 e2] l1'
  have 2: "upsertConnection ''k'' (seal_encrypt ''k'' ''iv-1'') no_config_id 7 live_table_example
         ''c1'' ''gh'' (JObj [(''access_token'', JStr ''at-2'')])
         [(''subdomain'', JStr ''acme'')] 1 JUndefined
       = Inr ([\<lparr>rid = 4,
                cols = \<lparr>row_id = None, connection_id = ''c1'', provider_config_key = ''gh'',
                        environment_id = 1, config_id = None,
                        credentials =
                          JObj [(''encrypted_credentials'',
                                 JCipher (Sealed ''k'' ''iv-1'' ?doc2))],
                        credentials_iv = Some ''iv-1'', credentials_tag = Some ''kiv-1'',
                        connection_config = [(''subdomain'', JStr ''acme'')],
                        metadata = JNull, updated_at = Some 7\<rparr>,
                deleted = False\<rparr>],
              4, OVERRIDE)"
    by (simp add: no_config_id_def live_table_example_def connection_example_def)
  from j1 l0 1 l1 2 show ?thesis by (intro conjI)
qed

subsection \<open>The encryption of existing rows\<close>

lemma update_by_id_middle:
  assumes "rid r \<notin> rid ` set pre" "rid r \<notin> rid ` set rest"
  shows "update_by_id (rid r) obj (pre @ r # rest) = pre @ patch_row obj r # rest"
proof -
  have "\<And>x. x \<in> set pre \<Longrightarrow> rid x \<noteq> rid r" "\<And>x. x \<in> set rest \<Longrightarrow> rid x \<noteq> rid r"
    using assms by (metis imageI)+
  then have "map (\<lambda>x. if rid x = rid r then patch_row obj x else x) pre = pre"
    and "map (\<lambda>x. if rid x = rid r then patch_row obj x else x) rest = rest"
    by (simp_all add: map_idI)
  then show ?thesis by (simp add: update_by_id_def)
qed

lemma has_iv_and_tag_select_star: "has_iv_and_tag (select_star r) = has_iv_and_tag (cols r)"
  by (simp add: has_iv_and_tag_def select_star_def)

lemma encryptConnection_row:
  assumes key: "key \<noteq> []"
    and creds: "JSON_stringify (credentials (cols r)) = Some doc"
    and cipher: "encrypt doc = (ct, iv, tag)"
  shows "\<exists>s. encryptConnection key encrypt (select_star r) = Inr s
           \<and> patch_row s r
               = r\<lparr>cols := (cols r)\<lparr>credentials := JObj [(''encrypted_credentials'', JCipher ct)],
                                     credentials_iv := Some iv, credentials_tag := Some tag\<rparr>\<rparr>"
  using assms
  by (cases "updated_at (cols r)")
     (simp_all add: encryptConnection_def shouldEncrypt_def select_star_def patch_row_def)

lemma encrypt_connections_loop:
  assumes key: "key \<noteq> []"
    and ids: "distinct (map rid (pre @ rows))"
    and creds: "\<And>r. r \<in> set rows \<Longrightarrow> credentials (cols r) \<noteq> JUndefined"
  shows "\<exists>rows'. encrypt_connections key encrypt rows (pre @ rows, log)
                 = Inr (pre @ rows',
                        log @ map rid (filter (\<lambda>r. \<not> has_iv_and_tag (cols r)) rows))
           \<and> list_all2
               (\<lambda>r r1. if has_iv_and_tag (cols r) then r1 = r
                        else \<exists>doc ct iv tag.
                               JSON_stringify (credentials (cols r)) = Some doc
                             \<and> encrypt doc = (ct, iv, tag)
                             \<and> r1 = r\<lparr>cols := (cols r)
                                       \<lparr>credentials := JObj [(''encrypted_credentials'', JCipher ct)],
                                        credentials_iv := Some iv,
                                        credentials_tag := Some tag\<rparr>\<rparr>)
               rows rows'"
  using ids creds
proof (induction rows arbitrary: pre log)
  case Nil
  then show ?case by simp
next
  case (Cons r rows)
  have d: "rid r \<notin> rid ` set pre" "rid r \<notin> rid ` set rows"
    using Cons.prems(1) by auto
  have rest: "\<And>x. x \<in> set rows \<Longrightarrow> credentials (cols x) \<noteq> JUndefined"
    using Cons.prems(2) by simp
  show ?case
  proof (cases "has_iv_and_tag (cols r)")
    case True
    have "distinct (map rid ((pre @ [r]) @ rows))" using Cons.prems(1) by simp
    from Cons.IH [OF this rest, of log]
    obtain rows' where
      "encrypt_connections key encrypt rows (pre @ r # rows, log)
       = Inr (pre @ r # rows', log @ map rid (filter (\<lambda>r. \<not> has_iv_and_tag (cols r)) rows))"
      and "list_all2
               (\<lambda>r r1. if has_iv_and_tag (cols r) then r1 = r
                        else \<exists>doc ct iv tag.
                               JSON_stringify (credentials (cols r)) = Some doc
                             \<and> encrypt doc = (ct, iv, tag)
                             \<and> r1 = r\<lparr>cols := (cols r)
                                       \<lparr>credentials := JObj [(''encrypted_credentials'', JCipher ct)],
                                        credentials_iv := Some iv,
                                        credentials_tag := Some tag\<rparr>\<rparr>)
               rows rows'"
      by auto
    with True show ?thesis
      by (intro exI [of _ "r # rows'"]) (simp add: has_iv_and_tag_select_star)
  next
    case False
    have "credentials (cols r) \<noteq> JUndefined" using Cons.prems(2) [of r] by simp
    then obtain doc where doc: "JSON_stringify (credentials (cols r)) = Some doc"
      by (cases "to_json (credentials (cols r))") (simp_all add: JSON_stringify_def to_json_None)
    obtain ct iv tag where cipher: "encrypt doc = (ct, iv, tag)"
      by (cases "encrypt doc") auto
    let ?r1 = "r\<lparr>cols := (cols r)\<lparr>credentials := JObj [(''encrypted_credentials'', JCipher ct)],
                                   credentials_iv := Some iv, credentials_tag := Some tag\<rparr>\<rparr>"
    from encryptConnection_row [where encrypt = encrypt, OF key doc cipher]
    obtain s where s: "encryptConnection key encrypt (select_star r) = Inr s"
      and p: "patch_row s r = ?r1"
      by blast
    have "distinct (map rid ((pre @ [?r1]) @ rows))"
      using Cons.prems(1) by simp
    from Cons.IH [OF this rest, of "log @ [rid r]"]
    obtain rows' where
      "encrypt_connections key encrypt rows (pre @ ?r1 # rows, log @ [rid r])
       = Inr (pre @ ?r1 # rows',
              log @ rid r # map rid (filter (\<lambda>r. \<not> has_iv_and_tag (cols r)) rows))"
      and "list_all2
               (\<lambda>r r1. if has_iv_and_tag (cols r) then r1 = r
                        else \<exists>doc ct iv tag.
                               JSON_stringify (credentials (cols r)) = Some doc
                             \<and> encrypt doc = (ct, iv, tag)
                             \<and> r1 = r\<lparr>cols := (cols r)
                                       \<lparr>credentials := JObj [(''encrypted_credentials'', JCipher ct)],
                                        credentials_iv := Some iv,
                                        credentials_tag := Some tag\<rparr>\<rparr>)
               rows rows'"
      by auto
    with False s p doc cipher update_by_id_middle [OF d, of s] show ?thesis
      by (intro exI [of _ "?r1 # rows'"]) (simp add: has_iv_and_tag_select_star)
  qed
qed


lemma encryptDatabase_result:
  assumes key: "key \<noteq> []"
    and ids: "distinct (map rid (connections db))"
    and creds: "\<And>r. r \<in> set (connections db) \<Longrightarrow> credentials (cols r) \<noteq> JUndefined"
  shows "\<exists>rows'. encryptDatabase key encrypt other db
                 = Inr (db\<lparr>connections := rows',
                          connection_updates := connection_updates db
                            @ map rid (filter (\<lambda>r. \<not> has_iv_and_tag (cols r)) (connections db)),
                          other_tables := other (other_tables db)\<rparr>)
           \<and> list_all2
               (\<lambda>r r1. if has_iv_and_tag (cols r) then r1 = r
                        else \<exists>doc ct iv tag.
                               JSON_stringify (credentials (cols r)) = Some doc
                             \<and> encrypt doc = (ct, iv, tag)
                             \<and> r1 = r\<lparr>cols := (cols r)
                                       \<lparr>credentials := JObj [(''encrypted_credentials'', JCipher ct)],
                                        credentials_iv := Some iv,
                                        credentials_tag := Some tag\<rparr>\<rparr>)
               (connections db) rows'"
proof -
  from encrypt_connections_loop
         [where pre = "[]" and rows = "connections db" and encrypt = encrypt
            and log = "connection_updates db", OF key] ids creds
  obtain rows' where
    "encrypt_connections key encrypt (connections db) (connections db, connection_updates db)
     = Inr (rows', connection_updates db
                   @ map rid (filter (\<lambda>r. \<not> has_iv_and_tag (cols r)) (connections db)))"
    and "list_all2
               (\<lambda>r r1. if has_iv_and_tag (cols r) then r1 = r
                        else \<exists>doc ct iv tag.
                               JSON_stringify (credentials (cols r)) = Some doc
                             \<and> encrypt doc = (ct, iv, tag)
                             \<and> r1 = r\<lparr>cols := (cols r)
                                       \<lparr>credentials := JObj [(''encrypted_credentials'', JCipher ct)],
                                        credentials_iv := Some iv,
                                        credentials_tag := Some tag\<rparr>\<rparr>)
               (connections db) rows'"
    by auto
  then show ?thesis
    by (intro exI [of _ rows']) (simp add: encryptDatabase_def)
qed

text \<open>
  C9. With an encryption key set and no checkpoint row yet (the key is new), on a table
  with distinct ids whose credentials can be serialised, \<^verbatim>\<open>encryptDatabaseIfNeeded\<close>
  returns, and row by row the table afterwards is the table before: a row that carries
  both IV and tag is as it was, and any other row has its credentials replaced by the
  ciphertext of their JSON text under \<^verbatim>\<open>encrypted_credentials\<close> and its IV and tag set to
  what the cipher returned, every other column, the id and the soft-delete flag being
  kept. One update is issued for each row of the second kind, in table order, and for
  no other. The checkpoint left is \<open>(hash of the key, complete)\<close>, the other tables have
  gone through their own encryption, and a second run with the same key returns the
  database unchanged, without any update.
\<close>

theorem encryptDatabaseIfNeeded_idempotent:
  assumes key: "key \<noteq> []"
    and new: "db_config db = None"
    and ids: "distinct (map rid (connections db))"
    and creds: "\<forall>r \<in> set (connections db). credentials (cols r) \<noteq> JUndefined"
  shows "\<exists>db1. encryptDatabaseIfNeeded key hashEncryptionKey encrypt other db = Inr db1
           \<and> list_all2
               (\<lambda>r r1. if has_iv_and_tag (cols r) then r1 = r
                        else \<exists>doc ct iv tag.
                               JSON_stringify (credentials (cols r)) = Some doc
                             \<and> encrypt doc = (ct, iv, tag)
                             \<and> r1 = r\<lparr>cols := (cols r)
                                       \<lparr>credentials := JObj [(''encrypted_credentials'', JCipher ct)],
                                        credentials_iv := Some iv,
                                        credentials_tag := Some tag\<rparr>\<rparr>)
               (connections db) (connections db1)
           \<and> connection_updates db1
               = connection_updates db
                 @ map rid (filter (\<lambda>r. \<not> has_iv_and_tag (cols r)) (connections db))
           \<and> db_config db1 = Some \<lparr>encryption_key_hash = Some (hashEncryptionKey key),
                                    encryption_complete = True\<rparr>
           \<and> other_tables db1 = other (other_tables db)
           \<and> encryptDatabaseIfNeeded key hashEncryptionKey encrypt other db1 = Inr db1"
proof -
  let ?db0 = "saveDbConfig \<lparr>encryption_key_hash = Some (hashEncryptionKey key),
                            encryption_complete = False\<rparr> db"
  have c0: "connections ?db0 = connections db" "connection_updates ?db0 = connection_updates db"
    "other_tables ?db0 = other_tables db"
    by (simp_all add: saveDbConfig_def)
  from encryptDatabase_result [where db = ?db0 and encrypt = encrypt and other = other, OF key]
    ids creds
  obtain rows' where
    run: "encryptDatabase key encrypt other ?db0
          = Inr (?db0\<lparr>connections := rows',
                      connection_updates := connection_updates db
                        @ map rid (filter (\<lambda>r. \<not> has_iv_and_tag (cols r)) (connections db)),
                      other_tables := other (other_tables db)\<rparr>)"
    and rows: "list_all2
               (\<lambda>r r1. if has_iv_and_tag (cols r) then r1 = r
                        else \<exists>doc ct iv tag.
                               JSON_stringify (credentials (cols r)) = Some doc
                             \<and> encrypt doc = (ct, iv, tag)
                             \<and> r1 = r\<lparr>cols := (cols r)
                                       \<lparr>credentials := JObj [(''encrypted_credentials'', JCipher ct)],
                                        credentials_iv := Some iv,
                                        credentials_tag := Some tag\<rparr>\<rparr>)
               (connections db) rows'"
    unfolding c0 by auto
  let ?db1 = "saveDbConfig \<lparr>encryption_key_hash = Some (hashEncryptionKey key),
                            encryption_complete = True\<rparr>
               (?db0\<lparr>connections := rows',
                     connection_updates := connection_updates db
                        @ map rid (filter (\<lambda>r. \<not> has_iv_and_tag (cols r)) (connections db)),
                     other_tables := other (other_tables db)\<rparr>)"
  have first: "encryptDatabaseIfNeeded key hashEncryptionKey encrypt other db = Inr ?db1"
    using key new run by (simp add: encryptDatabaseIfNeeded_def Let_def)
  have cfg: "db_config ?db1 = Some \<lparr>encryption_key_hash = Some (hashEncryptionKey key),
                                    encryption_complete = True\<rparr>"
    by (simp add: saveDbConfig_def)
  have second: "encryptDatabaseIfNeeded key hashEncryptionKey encrypt other ?db1 = Inr ?db1"
    unfolding encryptDatabaseIfNeeded_def cfg using key by (simp add: Let_def)
  have sel: "connections ?db1 = rows'"
    "connection_updates ?db1
       = connection_updates db
         @ map rid (filter (\<lambda>r. \<not> has_iv_and_tag (cols r)) (connections db))"
    "other_tables ?db1 = other (other_tables db)"
    by (simp_all add: saveDbConfig_def)
  show ?thesis
    by (intro exI [of _ ?db1] conjI first cfg second sel(2) sel(3)) (simp only: sel(1) rows)
qed

theorem encryptDatabaseIfNeeded_idempotent_witness:
  "''k'' \<noteq> [] \<and> db_config database_example = None
   \<and> map rid (connections database_example) = [4, 6, 9]
   \<and> map (\<lambda>r. has_iv_and_tag (cols r)) (connections database_example) = [False, False, True]
   \<and> (\<exists>db1. encryptDatabaseIfNeeded ''k'' hash_example (seal_encrypt ''k'' ''iv-1'') id
                 database_example = Inr db1
            \<and> map (\<lambda>r. (rid r, deleted r, credentials (cols r), credentials_iv (cols r),
                         credentials_tag (cols r)))
                (connections db1)
               = [(4, True,
                   JObj [(''encrypted_credentials'',
                          JCipher (Sealed ''k'' ''iv-1''
                            (DObj [(''access_token'', DStr ''at-1''),
                                   (''refresh_token'', DStr ''rt-1''),
                                   (''expires_in'', DNum 3600)])))],
                   Some ''iv-1'', Some ''kiv-1''),
                  (6, False,
                   JObj [(''encrypted_credentials'',
                          JCipher (Sealed ''k'' ''iv-1''
                            (DObj [(''access_token'', DStr ''at-1''),
                                   (''refresh_token'', DStr ''rt-1''),
                                   (''expires_in'', DNum 3600)])))],
                   Some ''iv-1'', Some ''kiv-1''),
                  (9, False,
                   JObj [(''encrypted_credentials'',
                          JCipher (Sealed ''k'' ''iv-0'' (DObj [(''apiKey'', DStr ''key-9'')])))],
                   Some ''iv-0'', Some ''kiv-0'')]
            \<and> connection_updates db1 = [4, 6]
            \<and> db_config db1 = Some \<lparr>encryption_key_hash = Some ''k'', encryption_complete = True\<rparr>
            \<and> encryptDatabaseIfNeeded ''k'' hash_example (seal_encrypt ''k'' ''iv-1'') id db1
                = Inr db1)"
proof -
  have k: "''k'' \<noteq> []" by simp
  have n: "db_config database_example = None" by (simp add: database_example_def)
  have i: "map rid (connections database_example) = [4, 6, 9]"
    by (simp add: database_example_def)
  have d: "distinct (map rid (connections database_example))"
    unfolding i by simp
  have h: "map (\<lambda>r. has_iv_and_tag (cols r)) (connections database_example) = [False, False, True]"
    by (simp add: database_example_def has_iv_and_tag_def connection_example_def)
  have c: "\<forall>r \<in> set (connections database_example). credentials (cols r) \<noteq> JUndefined"
    by (simp add: database_example_def connection_example_def raw_oauth2_example_def)
  from encryptDatabaseIfNeeded_idempotent
         [OF k n d c, where hashEncryptionKey = hash_example
            and encrypt = "seal_encrypt ''k'' ''iv-1''" and other = id]
  have "\<exists>db1. encryptDatabaseIfNeeded ''k'' hash_example (seal_encrypt ''k'' ''iv-1'') id
                 database_example = Inr db1
            \<and> map (\<lambda>r. (rid r, deleted r, credentials (cols r), credentials_iv (cols r),
                         credentials_tag (cols r)))
                (connections db1)
               = [(4, True,
                   JObj [(''encrypted_credentials'',
                          JCipher (Sealed ''k'' ''iv-1''
                            (DObj [(''access_token'', DStr ''at-1''),
                                   (''refresh_token'', DStr ''rt-1''),
                                   (''expires_in'', DNum 3600)])))],
                   Some ''iv-1'', Some ''kiv-1''),
                  (6, False,
                   JObj [(''encrypted_credentials'',
                          JCipher (Sealed ''k'' ''iv-1''
                            (DObj [(''access_token'', DStr ''at-1''),
                                   (''refresh_token'', DStr ''rt-1''),
                                   (''expires_in'', DNum 3600)])))],
                   Some ''iv-1'', Some ''kiv-1''),
                  (9, False,
                   JObj [(''encrypted_credentials'',
                          JCipher (Sealed ''k'' ''iv-0'' (DObj [(''apiKey'', DStr ''key-9'')])))],
                   Some ''iv-0'', Some ''kiv-0'')]
            \<and> connection_updates db1 = [4, 6]
            \<and> db_config db1 = Some \<lparr>encryption_key_hash = Some ''k'', encryption_complete = True\<rparr>
            \<and> encryptDatabaseIfNeeded ''k'' hash_example (seal_encrypt ''k'' ''iv-1'') id db1
                = Inr db1"
    by (auto simp: database_example_def has_iv_and_tag_def connection_example_def
          raw_oauth2_example_def hash_example_def JSON_stringify_def List.map_filter_def
          seal_encrypt_def seal_tag_def list_all2_Cons1)
  with k n i h show ?thesis by (intro conjI)
qed

subsection \<open>Refresh without a refresh token\<close>

text \<open>
  C4. For plain OAuth2 (the template's mode or the credentials' type is OAuth2) and a
  provider other than \<^verbatim>\<open>facebook\<close>, when the stored credentials hold no refresh token
  (the property is missing, \<^verbatim>\<open>null\<close> or empty), \<^verbatim>\<open>refreshCredentialsIfNeeded\<close> decides not to
  refresh, whatever the expiry and also when a refresh is forced: it returns success with
  the stored credentials as they are, and leaves the table, the lock and the provider's
  call counter untouched. So a refresh is performed only if a refresh token is present.
\<close>

theorem refreshCredentialsIfNeeded_without_refresh_token:
  assumes plain: "auth_mode template = OAuth2
                  \<or> credentials_have_type (credentials connection) OAuth2"
    and provider: "provider providerConfig \<noteq> ''facebook''"
    and token: "js_get (credentials connection) ''refresh_token'' = Some refresh_token"
    and absent: "\<not> truthy refresh_token"
  shows "refreshCredentialsIfNeeded shouldIntrospectToken introspectedTokenExpired
           isTokenExpired getNewCredentials key encrypt connection providerConfig template
           environment_id' instantRefresh s
         = Inr (\<lparr>success = True, error = None, response = Some (credentials connection)\<rparr>, s)"
proof -
  have "js_get (credentials connection) ''expires_at'' \<noteq> None"
    using token by (cases "credentials connection") simp_all
  then obtain e where e: "js_get (credentials connection) ''expires_at'' = Some e" by blast
  have "shouldRefreshCredentials shouldIntrospectToken introspectedTokenExpired isTokenExpired
          connection (credentials connection) providerConfig template instantRefresh
        = Inr False"
    using plain provider token absent e
    by (simp add: shouldRefreshCredentials_def Let_def)
  then show ?thesis by (simp add: refreshCredentialsIfNeeded_def)
qed

theorem refreshCredentialsIfNeeded_without_refresh_token_witness:
  "auth_mode oauth2_template = OAuth2
   \<and> provider github_config \<noteq> ''facebook''
   \<and> js_get (credentials (connection_example expired_credentials_no_refresh_token))
        ''refresh_token'' = Some JUndefined
   \<and> \<not> truthy (JUndefined :: sealed jsval)
   \<and> refreshCredentialsIfNeeded no_introspection not_introspected (isTokenExpired_at 5000000)
        stub_provider ''k'' (seal_encrypt ''k'' ''iv-2'')
        (connection_example expired_credentials_no_refresh_token) github_config oauth2_template
        1 True (stored_state expired_credentials_no_refresh_token)
     = Inr (\<lparr>success = True, error = None,
             response = Some expired_credentials_no_refresh_token\<rparr>,
            stored_state expired_credentials_no_refresh_token)"
proof -
  have a: "auth_mode oauth2_template = OAuth2" by (simp add: oauth2_template_def)
  have p: "provider github_config \<noteq> ''facebook''" by (simp add: github_config_def)
  have t: "js_get (credentials (connection_example expired_credentials_no_refresh_token))
             ''refresh_token'' = Some JUndefined"
    by (simp add: connection_example_def expired_credentials_no_refresh_token_def js_prop_def)
  have u: "\<not> truthy (JUndefined :: sealed jsval)" by simp
  have c: "credentials (connection_example expired_credentials_no_refresh_token)
           = expired_credentials_no_refresh_token"
    by (simp add: connection_example_def)
  from refreshCredentialsIfNeeded_without_refresh_token
         [OF disjI1 [OF a] p t u, where shouldIntrospectToken = no_introspection
            and introspectedTokenExpired = not_introspected
            and isTokenExpired = "isTokenExpired_at 5000000"
            and getNewCredentials = stub_provider and key = "''k''"
            and encrypt = "seal_encrypt ''k'' ''iv-2''" and environment_id' = 1
            and instantRefresh = True
            and s = "stored_state expired_credentials_no_refresh_token"]
  have "refreshCredentialsIfNeeded no_introspection not_introspected (isTokenExpired_at 5000000)
        stub_provider ''k'' (seal_encrypt ''k'' ''iv-2'')
        (connection_example expired_credentials_no_refresh_token) github_config oauth2_template
        1 True (stored_state expired_credentials_no_refresh_token)
     = Inr (\<lparr>success = True, error = None,
             response = Some expired_credentials_no_refresh_token\<rparr>,
            stored_state expired_credentials_no_refresh_token)"
    by (simp add: c)
  with a p t u show ?thesis by blast
qed

subsection \<open>Concurrent refreshes\<close>

text \<open>
  A call running alone, with its lock free, goes through its four steps to the result
  and the state of \<^verbatim>\<open>refreshCredentialsIfNeeded\<close> run on its own.
\<close>

lemma refreshCredentialsIfNeeded_run:
  assumes free: "lock_free (refresh_lock_key env connection) s"
  shows "map phase (callers (run sit ite isExp getNew key encrypt providerConfig template env
                               instantRefresh [0, 0, 0, 0] (launch [connection] s)))
           = [Done (map_sum id fst
                (refreshCredentialsIfNeeded sit ite isExp getNew key encrypt connection
                   providerConfig template env instantRefresh s))]
         \<and> shared (run sit ite isExp getNew key encrypt providerConfig template env
                      instantRefresh [0, 0, 0, 0] (launch [connection] s))
           = (case refreshCredentialsIfNeeded sit ite isExp getNew key encrypt connection
                     providerConfig template env instantRefresh s of
                Inl ex \<Rightarrow> s
              | Inr (r, s') \<Rightarrow> s')"
proof -
  let ?st = "step sit ite isExp getNew key encrypt providerConfig template env instantRefresh 0"
  let ?k = "refresh_lock_key env connection"
  let ?c0 = "\<lparr>call_connection = connection, phase = Start, called = False\<rparr>"
  have run: "run sit ite isExp getNew key encrypt providerConfig template env
               instantRefresh [0, 0, 0, 0] (launch [connection] s)
             = ?st (?st (?st (?st \<lparr>callers = [?c0], shared = s\<rparr>)))"
    by (simp add: run_def launch_def)
  have fin: "\<And>r s' cn b. ?st \<lparr>callers = [\<lparr>call_connection = cn, phase = Done r, called = b\<rparr>], shared = s'\<rparr>
                       = \<lparr>callers = [\<lparr>call_connection = cn, phase = Done r, called = b\<rparr>], shared = s'\<rparr>"
    by (simp add: step_def call_step_def Let_def)
  show ?thesis
  proof (cases "shouldRefreshCredentials sit ite isExp connection (credentials connection)
                  providerConfig template instantRefresh")
    case (Inl ex)
    then have "?st \<lparr>callers = [?c0], shared = s\<rparr>
               = \<lparr>callers = [\<lparr>call_connection = connection, phase = Done (Inl ex), called = False\<rparr>], shared = s\<rparr>"
      by (simp add: step_def call_step_def Let_def)
    with Inl show ?thesis unfolding run by (simp add: fin refreshCredentialsIfNeeded_def)
  next
    case (Inr b)
    show ?thesis
    proof (cases b)
      case False
      with Inr have "?st \<lparr>callers = [?c0], shared = s\<rparr>
               = \<lparr>callers = [\<lparr>call_connection = connection, phase = Done (Inr \<lparr>success = True, error = None,
                                                response = Some (credentials connection)\<rparr>), called = False\<rparr>],
                  shared = s\<rparr>"
        by (simp add: step_def call_step_def Let_def)
      with Inr False show ?thesis
        unfolding run by (simp add: fin refreshCredentialsIfNeeded_def)
    next
      case True
      let ?s1 = "(acquire ?k s)\<lparr>refresh_calls := Suc (refresh_calls s)\<rparr>"
      let ?c2 = "\<lparr>call_connection = connection, phase = InCall (refresh_calls s), called = True\<rparr>"
      from Inr True have 1: "?st \<lparr>callers = [?c0], shared = s\<rparr>
               = \<lparr>callers = [\<lparr>call_connection = connection, phase = WaitLock, called = False\<rparr>], shared = s\<rparr>"
        by (simp add: step_def call_step_def Let_def)
      have 2: "?st \<lparr>callers = [\<lparr>call_connection = connection, phase = WaitLock, called = False\<rparr>], shared = s\<rparr>
               = \<lparr>callers = [?c2], shared = ?s1\<rparr>"
        using free by (simp add: step_def call_step_def Let_def)
      have R: "refreshCredentialsIfNeeded sit ite isExp getNew key encrypt connection
                  providerConfig template env instantRefresh s
               = (case getNew (refresh_calls s) connection providerConfig template of
                  Throws \<Rightarrow> Inr (refresh_failed, release ?k ?s1)
                | Responds r \<Rightarrow>
                    (case response r of
                       None \<Rightarrow> Inr (r\<lparr>response := None\<rparr>, release ?k ?s1)
                     | Some newCredentials \<Rightarrow>
                         if \<not> success r \<or> \<not> truthy newCredentials
                         then Inr (r\<lparr>response := None\<rparr>, release ?k ?s1)
                         else (case updateConnection key encrypt
                                      (connection\<lparr>credentials := newCredentials\<rparr>) (connections_table ?s1) of
                                 Inl e \<Rightarrow> Inr (refresh_failed, release ?k ?s1)
                               | Inr rows \<Rightarrow>
                                   Inr (\<lparr>success = True, error = None,
                                         response = Some newCredentials\<rparr>,
                                        release ?k (?s1\<lparr>connections_table := rows\<rparr>)))))"
        using Inr True by (simp add: refreshCredentialsIfNeeded_def Let_def)
      show ?thesis
      proof (cases "getNew (refresh_calls s) connection providerConfig template")
        case Throws
        then have 3: "?st \<lparr>callers = [?c2], shared = ?s1\<rparr>
               = \<lparr>callers = [\<lparr>call_connection = connection, phase = Done (Inr refresh_failed), called = True\<rparr>],
                  shared = release ?k ?s1\<rparr>"
          by (simp add: step_def call_step_def Let_def)
        show ?thesis unfolding run 1 2 3 fin R using Throws by simp
      next
        case (Responds r)
        show ?thesis
        proof (cases "response r")
          case None
          with Responds have 3: "?st \<lparr>callers = [?c2], shared = ?s1\<rparr>
               = \<lparr>callers = [\<lparr>call_connection = connection, phase = Done (Inr (r\<lparr>response := None\<rparr>)), called = True\<rparr>],
                  shared = release ?k ?s1\<rparr>"
            by (simp add: step_def call_step_def Let_def)
          show ?thesis unfolding run 1 2 3 fin R using Responds None by simp
        next
          case (Some newCredentials)
          show ?thesis
          proof (cases "\<not> success r \<or> \<not> truthy newCredentials")
            case True
            with Responds Some have 3: "?st \<lparr>callers = [?c2], shared = ?s1\<rparr>
               = \<lparr>callers = [\<lparr>call_connection = connection, phase = Done (Inr (r\<lparr>response := None\<rparr>)), called = True\<rparr>],
                  shared = release ?k ?s1\<rparr>"
              by (simp add: step_def call_step_def Let_def)
            show ?thesis unfolding run 1 2 3 fin R using Responds Some True by simp
          next
            case False
            let ?cn = "connection\<lparr>credentials := newCredentials\<rparr>"
            show ?thesis
            proof (cases "encryptConnection key encrypt ?cn")
              case (Inl e)
              with Responds Some False have 3: "?st \<lparr>callers = [?c2], shared = ?s1\<rparr>
                 = \<lparr>callers = [\<lparr>call_connection = connection, phase = Done (Inr refresh_failed), called = True\<rparr>],
                    shared = release ?k ?s1\<rparr>"
                by (simp add: step_def call_step_def Let_def)
              show ?thesis unfolding run 1 2 3 fin R using Responds Some False Inl
                by (simp add: updateConnection_def)
            next
              case (Inr stored)
              with Responds Some False have 3: "?st \<lparr>callers = [?c2], shared = ?s1\<rparr>
                 = \<lparr>callers = [\<lparr>call_connection = ?cn, phase = InUpdate newCredentials stored, called = True\<rparr>],
                    shared = ?s1\<rparr>"
                by (simp add: step_def call_step_def Let_def)
              have 4: "?st \<lparr>callers = [\<lparr>call_connection = ?cn, phase = InUpdate newCredentials stored, called = True\<rparr>],
                    shared = ?s1\<rparr>
                 = \<lparr>callers = [\<lparr>call_connection = ?cn, phase = Done (Inr \<lparr>success = True, error = None,
                                     response = Some newCredentials\<rparr>), called = True\<rparr>],
                    shared = release ?k (?s1\<lparr>connections_table :=
                     map (\<lambda>r. if keyed (connection_id connection) (provider_config_key connection)
                                      (environment_id connection) r
                                then patch_row stored r else r) (connections_table ?s1)\<rparr>)\<rparr>"
                by (simp add: step_def call_step_def Let_def refresh_lock_key_def)
              show ?thesis unfolding run 1 2 3 4 R using Responds Some False Inr
                by (simp add: updateConnection_def)
            qed
          qed
        qed
      qed
    qed
  qed
qed

text \<open>
  C1, as stated, fails. Two calls are launched on a connection whose credentials are
  expired. Both take the decision to refresh before either holds the lock. The first
  acquires the lock, calls the provider, stores the new credentials, which expire in the
  future, and releases; by then the provider has been called once and the second call is
  still waiting. The second call then acquires the lock and calls the provider again: the
  decision is not taken anew after the lock is acquired.
\<close>

theorem concurrent_refresh_counterexample:
  "map phase (callers (two_calls [0, 1, 0, 1, 0, 1, 0]))
     = [Done (Inr \<lparr>success = True, error = None, response = Some issued_credentials\<rparr>), WaitLock]
   \<and> map (\<lambda>r. credentials (cols r)) (connections_table (shared (two_calls [0, 1, 0, 1, 0, 1, 0])))
       = [issued_credentials]
   \<and> locks (shared (two_calls [0, 1, 0, 1, 0, 1, 0])) = []
   \<and> refresh_calls (shared (two_calls [0, 1, 0, 1, 0, 1, 0])) = 1
   \<and> refresh_calls (shared (two_calls [0, 1, 0, 1, 0, 1, 0, 1])) = 2"
  by (simp add: two_calls_def run_def step_def call_step_def launch_def stored_state_def
        shouldRefreshCredentials_def credentials_have_type_def js_prop_def
        connection_example_def expired_credentials_def issued_credentials_def
        no_introspection_def not_introspected_def github_config_def oauth2_template_def
        stub_provider_def refresh_lock_key_def lock_free_def acquire_def release_def
        encryptConnection_def shouldEncrypt_def keyed_def patch_row_def Let_def)
lemma call_step_cases:
  assumes "call_step sit ite isExp getNew key encrypt providerConfig template env
             instantRefresh c s = (c', s')"
  shows "refresh_lock_key env (call_connection c') = refresh_lock_key env (call_connection c)
       \<and> ((\<not> refreshing (phase c) \<and> \<not> refreshing (phase c') \<and> s' = s
              \<and> called c' = called c \<and> (pending (phase c') \<longrightarrow> pending (phase c)))
          \<or> (phase c = WaitLock \<and> refresh_lock_key env (call_connection c) \<notin> set (locks s)
              \<and> refreshing (phase c') \<and> called c'
              \<and> locks s' = refresh_lock_key env (call_connection c) # locks s
              \<and> refresh_calls s' = Suc (refresh_calls s))
          \<or> (refreshing (phase c) \<and> refreshing (phase c') \<and> locks s' = locks s
              \<and> refresh_calls s' = refresh_calls s \<and> called c' = called c)
          \<or> (refreshing (phase c) \<and> \<not> refreshing (phase c') \<and> \<not> pending (phase c')
              \<and> locks s' = removeAll (refresh_lock_key env (call_connection c)) (locks s)
              \<and> refresh_calls s' = refresh_calls s \<and> called c' = called c))"
proof (cases "phase c")
  case Start
  with assms show ?thesis
    by (auto simp: call_step_def Let_def refresh_lock_key_def split: sum.splits if_splits)
next
  case WaitLock
  with assms show ?thesis
    by (auto simp: call_step_def Let_def refresh_lock_key_def lock_free_def acquire_def
             split: if_splits)
next
  case (InCall n)
  with assms show ?thesis
    by (auto simp: call_step_def Let_def refresh_lock_key_def release_def
             split: provider_outcome.splits option.splits sum.splits if_splits)
next
  case (InUpdate nc stored)
  with assms show ?thesis
    by (auto simp: call_step_def Let_def refresh_lock_key_def release_def)
next
  case (Done r)
  with assms show ?thesis
    by (auto simp: call_step_def Let_def)
qed
lemma filter_update_count:
  "i < length xs \<Longrightarrow>
   length (filter P (xs[i := y])) + (if P (xs ! i) then 1 else 0)
   = length (filter P xs) + (if P y then 1 else (0::nat))"
proof (induction xs arbitrary: i)
  case Nil
  then show ?case by simp
next
  case (Cons x xs)
  show ?case
  proof (cases i)
    case 0
    then show ?thesis by simp
  next
    case (Suc j)
    with Cons.prems have "j < length xs" by simp
    from Cons.IH [OF this] Suc show ?thesis by simp
  qed
qed

lemma step_lock_invariant:
  assumes inv: "lock_invariant env w"
  shows "lock_invariant env
           (step sit ite isExp getNew key encrypt providerConfig template env instantRefresh i w)"
proof (cases "i < length (callers w)")
  case False
  with inv show ?thesis by (simp add: step_def)
next
  case True
  let ?c = "callers w ! i"
  let ?kc = "refresh_lock_key env (call_connection ?c)"
  obtain c' s' where cs: "call_step sit ite isExp getNew key encrypt providerConfig template env
             instantRefresh ?c (shared w) = (c', s')"
    by (cases "call_step sit ite isExp getNew key encrypt providerConfig template env
             instantRefresh ?c (shared w)")
  have w': "step sit ite isExp getNew key encrypt providerConfig template env instantRefresh i w
            = w\<lparr>callers := (callers w)[i := c'], shared := s'\<rparr>"
    using True cs by (simp add: step_def)
  note cases = call_step_cases [OF cs]
  have key': "refresh_lock_key env (call_connection c') = ?kc" using cases by simp
  show ?thesis
    unfolding w' lock_invariant_def
  proof (intro allI)
    fix k
    let ?P = "refreshing_under env k"
    have upd: "length (filter ?P ((callers w)[i := c'])) + (if ?P ?c then 1 else 0)
               = length (filter ?P (callers w)) + (if ?P c' then 1 else 0)"
      by (rule filter_update_count [OF True])
    have old: "length (filter ?P (callers w)) = (if k \<in> set (locks (shared w)) then 1 else 0)"
      using inv [unfolded lock_invariant_def] by (rule spec)
    have Pc: "?P ?c = (refreshing (phase ?c) \<and> ?kc = k)"
      by (simp add: refreshing_under_def)
    have Pc': "?P c' = (refreshing (phase c') \<and> ?kc = k)"
      using key' by (simp add: refreshing_under_def)
    have held: "?P ?c \<Longrightarrow> k \<in> set (locks (shared w))"
    proof (rule ccontr)
      assume p: "?P ?c" and "k \<notin> set (locks (shared w))"
      with old have "filter ?P (callers w) = []" by simp
      moreover have "?c \<in> set (callers w)" using True by simp
      ultimately show False using p by (simp add: filter_empty_conv)
    qed
    from cases have
      "(\<not> refreshing (phase ?c) \<and> \<not> refreshing (phase c') \<and> s' = shared w)
       \<or> (phase ?c = WaitLock \<and> ?kc \<notin> set (locks (shared w)) \<and> refreshing (phase c')
           \<and> locks s' = ?kc # locks (shared w))
       \<or> (refreshing (phase ?c) \<and> refreshing (phase c') \<and> locks s' = locks (shared w))
       \<or> (refreshing (phase ?c) \<and> \<not> refreshing (phase c')
           \<and> locks s' = removeAll ?kc (locks (shared w)))"
      by blast
    then show "length (filter ?P (callers (w\<lparr>callers := (callers w)[i := c'], shared := s'\<rparr>)))
               = (if k \<in> set (locks (shared (w\<lparr>callers := (callers w)[i := c'], shared := s'\<rparr>)))
                  then 1 else 0)"
    proof (elim disjE conjE)
      assume "\<not> refreshing (phase ?c)" "\<not> refreshing (phase c')" "s' = shared w"
      with upd old Pc Pc' show ?thesis by simp
    next
      assume a: "phase ?c = WaitLock" "?kc \<notin> set (locks (shared w))" "refreshing (phase c')"
        "locks s' = ?kc # locks (shared w)"
      show ?thesis
      proof (cases "?kc = k")
        case True
        with a upd old Pc Pc' show ?thesis by simp
      next
        case False
        with a upd old Pc Pc' show ?thesis by auto
      qed
    next
      assume "refreshing (phase ?c)" "refreshing (phase c')" "locks s' = locks (shared w)"
      with upd old Pc Pc' show ?thesis by simp
    next
      assume a: "refreshing (phase ?c)" "\<not> refreshing (phase c')"
        "locks s' = removeAll ?kc (locks (shared w))"
      show ?thesis
      proof (cases "?kc = k")
        case True
        with a Pc have "?P ?c" by simp
        from held [OF this] have "k \<in> set (locks (shared w))" .
        with True a upd old Pc Pc' show ?thesis by simp
      next
        case False
        with a upd old Pc Pc' show ?thesis by auto
      qed
    qed
  qed
qed
lemma refreshing_not_pending: "refreshing p \<Longrightarrow> \<not> pending p"
  by (cases p) simp_all

lemma step_count_invariant:
  assumes inv: "count_invariant n0 w"
  shows "count_invariant n0
           (step sit ite isExp getNew key encrypt providerConfig template env instantRefresh i w)"
proof (cases "i < length (callers w)")
  case False
  with inv show ?thesis by (simp add: step_def)
next
  case True
  let ?c = "callers w ! i"
  obtain c' s' where cs: "call_step sit ite isExp getNew key encrypt providerConfig template env
             instantRefresh ?c (shared w) = (c', s')"
    by (cases "call_step sit ite isExp getNew key encrypt providerConfig template env
             instantRefresh ?c (shared w)")
  have w': "step sit ite isExp getNew key encrypt providerConfig template env instantRefresh i w
            = w\<lparr>callers := (callers w)[i := c'], shared := s'\<rparr>"
    using True cs by (simp add: step_def)
  have mem: "?c \<in> set (callers w)" using True by simp
  have n: "refresh_calls (shared w) = n0 + length (filter called (callers w))"
    and p: "\<And>c. c \<in> set (callers w) \<Longrightarrow> pending (phase c) \<Longrightarrow> \<not> called c"
    using inv by (auto simp: count_invariant_def)
  have upd: "length (filter called ((callers w)[i := c'])) + (if called ?c then 1 else 0)
             = length (filter called (callers w)) + (if called c' then 1 else 0)"
    by (rule filter_update_count [OF True])
  from call_step_cases [OF cs] have
    "(called c' = called ?c \<and> (pending (phase c') \<longrightarrow> pending (phase ?c))
        \<and> refresh_calls s' = refresh_calls (shared w))
     \<or> (phase ?c = WaitLock \<and> \<not> pending (phase c') \<and> called c'
        \<and> refresh_calls s' = Suc (refresh_calls (shared w)))"
    by (elim conjE disjE) (auto dest: refreshing_not_pending)
  then have c': "refresh_calls s' = n0 + length (filter called ((callers w)[i := c']))
                 \<and> (pending (phase c') \<longrightarrow> \<not> called c')"
  proof (elim disjE conjE)
    assume a: "called c' = called ?c" "pending (phase c') \<longrightarrow> pending (phase ?c)"
      "refresh_calls s' = refresh_calls (shared w)"
    with upd n p [OF mem] show ?thesis by auto
  next
    assume a: "phase ?c = WaitLock" "\<not> pending (phase c')" "called c'"
      "refresh_calls s' = Suc (refresh_calls (shared w))"
    then have "\<not> called ?c" using p [OF mem] by simp
    with a upd n show ?thesis by simp
  qed
  have "\<And>c. c \<in> set ((callers w)[i := c']) \<Longrightarrow> pending (phase c) \<Longrightarrow> \<not> called c"
  proof -
    fix c assume "c \<in> set ((callers w)[i := c'])" and pc: "pending (phase c)"
    then have "c = c' \<or> c \<in> set (callers w)"
      using set_update_subset_insert [of "callers w" i c'] by auto
    then show "\<not> called c" using c' p pc by auto
  qed
  with c' show ?thesis unfolding w' by (simp add: count_invariant_def)
qed

lemma step_length:
  "length (callers (step sit ite isExp getNew key encrypt providerConfig template env
                      instantRefresh i w)) = length (callers w)"
  by (simp add: step_def split: prod.splits)

lemma run_invariants:
  assumes "lock_invariant env w" "count_invariant n0 w"
  shows "lock_invariant env
           (run sit ite isExp getNew key encrypt providerConfig template env instantRefresh
              schedule w)
       \<and> count_invariant n0
           (run sit ite isExp getNew key encrypt providerConfig template env instantRefresh
              schedule w)
       \<and> length (callers (run sit ite isExp getNew key encrypt providerConfig template env
                             instantRefresh schedule w)) = length (callers w)"
  using assms
proof (induction schedule arbitrary: w)
  case Nil
  then show ?case by (simp add: run_def)
next
  case (Cons i schedule)
  let ?w = "step sit ite isExp getNew key encrypt providerConfig template env instantRefresh i w"
  have "lock_invariant env ?w" "count_invariant n0 ?w"
    using Cons.prems by (simp_all add: step_lock_invariant step_count_invariant)
  from Cons.IH [OF this] show ?case
    by (simp add: run_def step_length)
qed

lemma launch_invariants:
  assumes "locks s = []"
  shows "lock_invariant env (launch connections' s)"
    and "count_invariant (refresh_calls s) (launch connections' s)"
proof -
  have "\<And>k. filter (refreshing_under env k)
               (map (\<lambda>c. \<lparr>call_connection = c, phase = Start, called = False\<rparr>) connections') = []"
    by (simp add: filter_empty_conv refreshing_under_def)
  then show "lock_invariant env (launch connections' s)"
    using assms by (simp add: lock_invariant_def launch_def)
  have "filter called
          (map (\<lambda>c. \<lparr>call_connection = c, phase = Start, called = False\<rparr>) connections') = []"
    by (simp add: filter_empty_conv)
  then show "count_invariant (refresh_calls s) (launch connections' s)"
    by (auto simp: count_invariant_def launch_def)
qed

text \<open>
  C1, amended. Launch any number of calls of \<^verbatim>\<open>refreshCredentialsIfNeeded\<close>, for one
  connection or several, with no lock held, and interleave them in any order. Each call
  takes its decision once, before it asks for the lock, and calls the provider at most
  once, so that N calls make at most N provider refresh calls (not at most one). They
  make them one at a time: at every moment at most one call per lock key has its provider
  call or its update in flight. (The lock's TTL and acquisition timeout are not part of
  the model.)
\<close>

theorem concurrent_refresh_serialised:
  assumes "locks s = []"
  shows "refresh_calls (shared (run sit ite isExp getNew key encrypt providerConfig template
                                  env instantRefresh schedule (launch connections' s)))
           \<le> refresh_calls s + length connections'
       \<and> (\<forall>k. length (filter (refreshing_under env k)
                         (callers (run sit ite isExp getNew key encrypt providerConfig template
                                     env instantRefresh schedule (launch connections' s))))
                 \<le> 1)"
proof -
  let ?w = "run sit ite isExp getNew key encrypt providerConfig template env instantRefresh
              schedule (launch connections' s)"
  from run_invariants [OF launch_invariants [OF assms]]
  have l: "lock_invariant env ?w" and c: "count_invariant (refresh_calls s) ?w"
    and n: "length (callers ?w) = length (callers (launch connections' s))"
    by blast+
  have "length (filter called (callers ?w)) \<le> length (callers ?w)" by simp
  with c n have 1: "refresh_calls (shared ?w) \<le> refresh_calls s + length connections'"
    by (simp add: count_invariant_def launch_def)
  have 2: "\<forall>k. length (filter (refreshing_under env k) (callers ?w)) \<le> 1"
  proof
    fix k
    from l [unfolded lock_invariant_def]
    have "length (filter (refreshing_under env k) (callers ?w))
          = (if k \<in> set (locks (shared ?w)) then 1 else 0)" by (rule spec)
    then show "length (filter (refreshing_under env k) (callers ?w)) \<le> 1" by simp
  qed
  from 1 2 show ?thesis by blast
qed

theorem concurrent_refresh_serialised_witness:
  "locks (stored_state expired_credentials) = []
   \<and> refresh_calls (shared (two_calls [0, 1, 0, 1, 0, 1, 0, 1]))
       \<le> refresh_calls (stored_state expired_credentials) + 2
   \<and> (\<forall>k. length (filter (refreshing_under 1 k) (callers (two_calls [0, 1, 0, 1, 0, 1, 0, 1])))
             \<le> 1)"
proof -
  have l: "locks (stored_state expired_credentials) = []" by (simp add: stored_state_def)
  from concurrent_refresh_serialised
         [OF l, where sit = no_introspection and ite = not_introspected
            and isExp = "isTokenExpired_at 5000000" and getNew = stub_provider and key = "[]"
            and encrypt = "seal_encrypt [] ''iv-2''" and providerConfig = github_config
            and template = oauth2_template and env = 1 and instantRefresh = False
            and schedule = "[0, 1, 0, 1, 0, 1, 0, 1]"
            and connections' = "[connection_example expired_credentials,
                                 connection_example expired_credentials]"]
  show ?thesis using l by (simp add: two_calls_def)
qed

subsection \<open>Sessions are used once\<close>

text \<open>
  C2. Let a callback carry the state \<open>st\<close> and be handled as such, that is, not answered
  by the redirect of an app installation (which needs the state to be empty). Then the
  store the handler leaves, and hands to the protocol handler if it dispatches, holds no
  session under \<open>st\<close>. Any later callback with the same state leaves that store as it is
  and is not dispatched, so no token exchange and no upsert take place; when \<open>st\<close> is not
  empty it ends in \<^verbatim>\<open>No session found\<close>.
\<close>

theorem session_single_use:
  assumes first: "query_state req1 = Some st"
    and second: "query_state req2 = Some st"
    and handled: "fst (oauthCallback getTemplate1 req1 store) \<noteq> RedirectToReferer"
  shows "snd (oauthCallback getTemplate1 req1 store) st = None
       \<and> \<not> dispatched (fst (oauthCallback getTemplate2 req2
                                (snd (oauthCallback getTemplate1 req1 store))))
       \<and> snd (oauthCallback getTemplate2 req2 (snd (oauthCallback getTemplate1 req1 store)))
           = snd (oauthCallback getTemplate1 req1 store)
       \<and> (st \<noteq> [] \<longrightarrow>
             fst (oauthCallback getTemplate2 req2 (snd (oauthCallback getTemplate1 req1 store)))
             = NoSessionFound st)"
proof -
  let ?store' = "snd (oauthCallback getTemplate1 req1 store)"
  have gone: "?store' st = None"
    using first handled
    by (auto simp: oauthCallback_def session_findById_def session_delete_def Let_def
             split: option.splits if_splits)
  then have "oauthCallback getTemplate2 req2 ?store'
             = (if \<not> present (query_state req2) \<and> present (query_installation_id req2)
                   \<and> present (query_setup_action req2)
                then RedirectToReferer else NoSessionFound st, ?store')"
    using second by (simp add: oauthCallback_def session_findById_def)
  moreover have "st \<noteq> [] \<Longrightarrow> present (query_state req2)"
    using second by (simp add: present_def)
  ultimately show ?thesis using gone by auto
qed

theorem session_single_use_witness:
  "query_state callback_example = Some ''session-1''
   \<and> fst (oauthCallback (getTemplate (services_example github_config oauth2_template))
             callback_example [''session-1'' \<mapsto> session_example])
       = ToOAuth2Callback oauth2_template session_example
   \<and> snd (oauthCallback (getTemplate (services_example github_config oauth2_template))
             callback_example [''session-1'' \<mapsto> session_example]) ''session-1'' = None
   \<and> fst (oauthCallback (getTemplate (services_example github_config oauth2_template))
             callback_example
             (snd (oauthCallback (getTemplate (services_example github_config oauth2_template))
                     callback_example [''session-1'' \<mapsto> session_example])))
       = NoSessionFound ''session-1''"
proof -
  have s: "query_state callback_example = Some ''session-1''"
    by (simp add: callback_example_def)
  have f: "fst (oauthCallback (getTemplate (services_example github_config oauth2_template))
             callback_example [''session-1'' \<mapsto> session_example])
           = ToOAuth2Callback oauth2_template session_example"
    by (simp add: oauthCallback_def callback_example_def session_example_def present_def
          session_findById_def session_delete_def services_example_def github_config_def)
  then have h: "fst (oauthCallback (getTemplate (services_example github_config oauth2_template))
             callback_example [''session-1'' \<mapsto> session_example]) \<noteq> RedirectToReferer"
    by simp
  from session_single_use [OF s s h,
         where ?getTemplate2.0 = "getTemplate (services_example github_config oauth2_template)"]
       s f
  show ?thesis by simp
qed
subsection \<open>An incomplete provider config\<close>

text \<open>
  C5, as stated, fails for the mode \<^verbatim>\<open>App\<close>: the check is skipped for it. With a template
  of mode \<^verbatim>\<open>App\<close> and a provider config without client id, \<^verbatim>\<open>oauthRequest\<close> goes on to
  \<^verbatim>\<open>appRequest\<close>, which creates the session and redirects.
\<close>

theorem oauthRequest_app_counterexample:
  "auth_mode app_template \<noteq> NoneMode
   \<and> oauth_client_id (apply_overrides (request_example Map.empty) config_without_client_id)
       = None
   \<and> fst (oauthRequest (services_example config_without_client_id app_template) 1
             (request_example Map.empty) Map.empty)
       = Redirect (AppRedirect ''https://provider.example/apps/install'' ''session-1'')
   \<and> map_option connectionId
         (snd (oauthRequest (services_example config_without_client_id app_template) 1
                 (request_example Map.empty) Map.empty) ''session-1'')
       = Some ''c1''"
  by (simp add: oauthRequest_def appRequest_def services_example_def request_example_def
        app_template_def config_without_client_id_def apply_overrides_def override_def
        build_session_def request_connectionConfig_def present_def session_create_def
        spread_defined_def Let_def)

text \<open>
  C5, amended. In \<^verbatim>\<open>oauthRequest\<close>, once the provider config and its template are loaded, if
  the template's mode is not \<^verbatim>\<open>App\<close> and the client id, the client secret or the scopes
  are missing after the overrides of the request, the client is sent
  \<^verbatim>\<open>InvalidProviderConfig\<close>; the session store is left as it was and nothing is
  redirected.
\<close>

theorem oauthRequest_invalid_provider_config:
  assumes cid: "query_connection_id req = Some cid"
    and key: "param_providerConfigKey req = Some key"
    and hmac: "\<not> hmac_isEnabled svc env
               \<or> (present (query_hmac req) \<and> hmac_verify svc (the (query_hmac req)) env key cid)"
    and config: "getProviderConfig svc key env = Some stored_config"
    and template: "getTemplate svc (provider stored_config) = Some template"
    and mode: "auth_mode template \<noteq> App"
    and missing: "oauth_client_id (apply_overrides req stored_config) = None
                  \<or> oauth_client_secret (apply_overrides req stored_config) = None
                  \<or> oauth_scopes (apply_overrides req stored_config) = None"
  shows "oauthRequest svc env req store = (NotifyErr (InvalidProviderConfig key), store)"
  using assms by (auto simp: oauthRequest_def Let_def)

theorem oauthRequest_invalid_provider_config_witness:
  "query_connection_id (request_example Map.empty) = Some ''c1''
   \<and> param_providerConfigKey (request_example Map.empty) = Some ''gh''
   \<and> \<not> hmac_isEnabled (services_example config_without_client_id oauth2_template) 1
   \<and> getProviderConfig (services_example config_without_client_id oauth2_template) ''gh'' 1
       = Some config_without_client_id
   \<and> getTemplate (services_example config_without_client_id oauth2_template)
         (provider config_without_client_id) = Some oauth2_template
   \<and> auth_mode oauth2_template \<noteq> App
   \<and> oauth_client_id (apply_overrides (request_example Map.empty) config_without_client_id)
       = None
   \<and> oauthRequest (services_example config_without_client_id oauth2_template) 1
         (request_example Map.empty) Map.empty
       = (NotifyErr (InvalidProviderConfig ''gh''), Map.empty)"
proof -
  let ?svc = "services_example config_without_client_id oauth2_template"
  have c: "query_connection_id (request_example Map.empty) = Some ''c1''"
    and k: "param_providerConfigKey (request_example Map.empty) = Some ''gh''"
    by (simp_all add: request_example_def)
  have h: "\<not> hmac_isEnabled ?svc 1" by (simp add: services_example_def)
  have g: "getProviderConfig ?svc ''gh'' 1 = Some config_without_client_id"
    and t: "getTemplate ?svc (provider config_without_client_id) = Some oauth2_template"
    by (simp_all add: services_example_def)
  have m: "auth_mode oauth2_template \<noteq> App" by (simp add: oauth2_template_def)
  have o: "oauth_client_id (apply_overrides (request_example Map.empty) config_without_client_id)
           = None"
    by (simp add: apply_overrides_def request_example_def override_def
          config_without_client_id_def)
  from oauthRequest_invalid_provider_config
         [OF c k disjI1 [OF h] g t m disjI1 [OF o], where store = Map.empty]
  have "oauthRequest ?svc 1 (request_example Map.empty) Map.empty
        = (NotifyErr (InvalidProviderConfig ''gh''), Map.empty)" .
  with c k h g t m o show ?thesis by blast
qed
subsection \<open>The PKCE challenge\<close>

lemma base64url_safe:
  "CHR ''+'' \<notin> set (base64url b) \<and> CHR ''/'' \<notin> set (base64url b)
   \<and> (\<forall>p. base64url b \<noteq> p @ ''='')"
proof -
  define m where "m = map (\<lambda>c. if c = CHR ''/'' then CHR ''_'' else c)
                        (map (\<lambda>c. if c = CHR ''+'' then CHR ''-'' else c) b)"
  define d where "d = dropWhile (\<lambda>c. c = CHR ''='') (rev m)"
  have b: "base64url b = rev d" by (simp add: base64url_def m_def d_def)
  have m: "CHR ''+'' \<notin> set m" "CHR ''/'' \<notin> set m" by (auto simp: m_def)
  have sub: "\<And>x. x \<in> set d \<Longrightarrow> x \<in> set m"
    using set_dropWhileD [of _ "\<lambda>c. c = CHR ''=''" "rev m"] by (simp add: d_def)
  have hd: "d = [] \<or> hd d \<noteq> CHR ''=''"
    using hd_dropWhile [of "\<lambda>c. c = CHR ''=''" "rev m"] by (auto simp: d_def)
  have "\<And>p. rev d \<noteq> p @ ''=''"
  proof
    fix p assume "rev d = p @ ''=''"
    then have "d = rev (p @ ''='')" by (simp add: rev_swap)
    then have "d = CHR ''='' # rev p" by simp
    with hd show False by simp
  qed
  with m sub show ?thesis unfolding b by auto
qed

lemma oauth2Request_redirect:
  assumes r: "oauth2Request mip cc sha template config session ccfg ap cb us store
              = (Redirect (OAuth2Redirect params repl), store')"
    and pkce: "\<not> disable_pkce template"
    and ch: "ap ''code_challenge'' = None"
    and me: "ap ''code_challenge_method'' = None"
  shows "params ''code_challenge'' = Some (base64url (sha (codeVerifier session)))
       \<and> params ''code_challenge_method'' = Some ''S256''
       \<and> store' (session_id session) = Some session"
proof -
  let ?a0 = "case authorization_params template of None \<Rightarrow> Map.empty | Some m \<Rightarrow> m"
  let ?a1 = "?a0(''code_challenge'' \<mapsto> base64url (sha (codeVerifier session)),
                 ''code_challenge_method'' \<mapsto> ''S256'')"
  let ?a2 = "if provider config = ''slack'' \<and> present us
             then ?a1(''user_scope'' \<mapsto> the us) else ?a1"
  let ?all = "spread_defined ?a2 ap"
  have all: "?all ''code_challenge'' = Some (base64url (sha (codeVerifier session)))"
    "?all ''code_challenge_method'' = Some ''S256''"
    using ch me by (simp_all add: spread_defined_def)
  from r pkce obtain first3 where
    p: "params = first3 ++ ?all" and s: "session_create session store = Some store'"
    by (auto simp: oauth2Request_def Let_def split: option.splits if_splits token_url.splits)
  from s have "store' (session_id session) = Some session"
    by (auto simp: session_create_def split: option.splits)
  with p all show ?thesis by (simp add: map_add_def)
qed

text \<open>
  When \<^verbatim>\<open>oauthRequest\<close> answers with an OAuth2 redirect for a template that does not disable
  PKCE, and the request's \<^verbatim>\<open>authorization_params\<close> name neither \<^verbatim>\<open>code_challenge\<close> nor
  \<^verbatim>\<open>code_challenge_method\<close>, then the session stored under the new id carries the random hex
  string as its code verifier, and the parameters handed to \<^verbatim>\<open>authorizeURL\<close> carry
  \<^verbatim>\<open>code_challenge_method = S256\<close> and as \<^verbatim>\<open>code_challenge\<close> the base64 SHA-256 digest of that
  verifier with \<^verbatim>\<open>+\<close> replaced by \<^verbatim>\<open>-\<close>, \<^verbatim>\<open>/\<close> by \<^verbatim>\<open>_\<close> and the trailing \<^verbatim>\<open>=\<close> stripped: a string
  without \<^verbatim>\<open>+\<close> and \<^verbatim>\<open>/\<close> that does not end in \<^verbatim>\<open>=\<close>.
\<close>

lemma oauthRequest_pkce_params:
  assumes result: "oauthRequest svc env req store
                   = (Redirect (OAuth2Redirect params replacements), store')"
    and key: "param_providerConfigKey req = Some key"
    and config: "getProviderConfig svc key env = Some stored_config"
    and template: "getTemplate svc (provider stored_config) = Some template"
    and pkce: "\<not> disable_pkce template"
    and ch: "query_authorization_params req ''code_challenge'' = None"
    and me: "query_authorization_params req ''code_challenge_method'' = None"
  shows "\<exists>session challenge.
           store' (uuid_v1 svc) = Some session
         \<and> session_id session = uuid_v1 svc
         \<and> codeVerifier session = randomBytes_hex svc
         \<and> challenge = base64url (sha256_base64 svc (codeVerifier session))
         \<and> params ''code_challenge'' = Some challenge
         \<and> params ''code_challenge_method'' = Some ''S256''
         \<and> CHR ''+'' \<notin> set challenge \<and> CHR ''/'' \<notin> set challenge
         \<and> (\<forall>p. challenge \<noteq> p @ ''='')"
proof -
  from result obtain cid where cid: "query_connection_id req = Some cid"
    by (cases "query_connection_id req") (auto simp: oauthRequest_def)
  let ?session = "build_session svc env req key cid stored_config template"
  let ?config = "apply_overrides req stored_config"
  have "oauth2Request (missesInterpolationParam svc) (simpleOAuth2ClientConfig svc)
          (sha256_base64 svc) template ?config ?session (request_connectionConfig req)
          (query_authorization_params req) (getOauthCallbackUrl svc env)
          (query_user_scope req) store
        = (Redirect (OAuth2Redirect params replacements), store')"
    using result cid key config template
    by (auto simp: oauthRequest_def Let_def appRequest_def oauth1Request_def
             split: if_splits option.splits prod.splits)
  from oauth2Request_redirect [OF this pkce ch me]
  have "params ''code_challenge'' = Some (base64url (sha256_base64 svc (codeVerifier ?session)))"
    "params ''code_challenge_method'' = Some ''S256''"
    "store' (session_id ?session) = Some ?session"
    by simp_all
  moreover have "session_id ?session = uuid_v1 svc" "codeVerifier ?session = randomBytes_hex svc"
    by (simp_all add: build_session_def Let_def)
  ultimately show ?thesis
    using base64url_safe [of "sha256_base64 svc (randomBytes_hex svc)"] by auto
qed

lemma oauthRequest_pkce_params_example:
  "\<not> disable_pkce oauth2_template
   \<and> (case oauthRequest (services_example github_config oauth2_template) 1
              (request_example Map.empty) Map.empty of
        (Redirect (OAuth2Redirect params replacements), store') \<Rightarrow>
          params ''code_challenge'' = Some ''q83v-_EjRWeJA''
          \<and> params ''code_challenge_method'' = Some ''S256''
          \<and> map_option codeVerifier (store' ''session-1'')
              = Some ''00112233445566778899aabbccddeeff0011223344556677''
      | _ \<Rightarrow> False)"
proof -
  let ?svc = "services_example github_config oauth2_template"
  have pk: "\<not> disable_pkce oauth2_template" by (simp add: oauth2_template_def)
  have "\<exists>params replacements store'.
          oauthRequest ?svc 1 (request_example Map.empty) Map.empty
          = (Redirect (OAuth2Redirect params replacements), store')"
    by (simp add: oauthRequest_def oauth2Request_def services_example_def request_example_def
          oauth2_template_def github_config_def apply_overrides_def override_def
          build_session_def request_connectionConfig_def present_def session_create_def
          Let_def)
  then obtain params replacements store' where
    r: "oauthRequest ?svc 1 (request_example Map.empty) Map.empty
        = (Redirect (OAuth2Redirect params replacements), store')"
    by blast
  have k: "param_providerConfigKey (request_example Map.empty) = Some ''gh''"
    and a: "query_authorization_params (request_example Map.empty) ''code_challenge'' = None"
      "query_authorization_params (request_example Map.empty) ''code_challenge_method'' = None"
    by (simp_all add: request_example_def)
  have g: "getProviderConfig ?svc ''gh'' 1 = Some github_config"
    and t: "getTemplate ?svc (provider github_config) = Some oauth2_template"
    by (simp_all add: services_example_def)
  have v: "base64url (sha256_base64 ?svc (randomBytes_hex ?svc)) = ''q83v-_EjRWeJA''"
    "uuid_v1 ?svc = ''session-1''"
    "randomBytes_hex ?svc = ''00112233445566778899aabbccddeeff0011223344556677''"
    by (simp_all add: services_example_def base64url_def)
  from oauthRequest_pkce_params [OF r k g t pk a] v
  have "params ''code_challenge'' = Some ''q83v-_EjRWeJA''
        \<and> params ''code_challenge_method'' = Some ''S256''
        \<and> map_option codeVerifier (store' ''session-1'')
            = Some ''00112233445566778899aabbccddeeff0011223344556677''"
    by auto
  with pk show ?thesis unfolding r by simp
qed

text \<open>
  C3. The invariant is what \<^verbatim>\<open>oauth2Request\<close> announces (its comment: PKCE is always
  implemented unless the template turns it off) and what the callback relies on (it
  sends the session's code verifier whenever the template does not disable PKCE). The
  code misses it: the request's \<^verbatim>\<open>authorization_params\<close> are merged in after the challenge
  is set. For a template that does not disable PKCE, a request whose
  \<^verbatim>\<open>authorization_params\<close> set \<^verbatim>\<open>code_challenge\<close> to \<^verbatim>\<open>undefined\<close> is redirected with no
  \<^verbatim>\<open>code_challenge\<close> at all, and one that sets it to a string of its own is redirected with
  that string; in both the session keeps its code verifier, whose encoded digest is
  another string, and no literal replacement touches the URL.
\<close>

theorem oauthRequest_pkce_override:
  "\<not> disable_pkce oauth2_template
   \<and> base64url (sha256_base64 (services_example github_config oauth2_template)
                  ''00112233445566778899aabbccddeeff0011223344556677'')
       = ''q83v-_EjRWeJA''
   \<and> (case fst (oauthRequest (services_example github_config oauth2_template) 1
                  (request_example [''code_challenge'' \<mapsto> None]) Map.empty) of
        Redirect (OAuth2Redirect params replacements) \<Rightarrow>
          params ''code_challenge'' = None \<and> params ''code_challenge_method'' = Some ''S256''
          \<and> params ''state'' = Some ''session-1'' \<and> replacements = []
      | _ \<Rightarrow> False)
   \<and> map_option codeVerifier
        (snd (oauthRequest (services_example github_config oauth2_template) 1
                (request_example [''code_challenge'' \<mapsto> None]) Map.empty) ''session-1'')
       = Some ''00112233445566778899aabbccddeeff0011223344556677''
   \<and> (case fst (oauthRequest (services_example github_config oauth2_template) 1
                  (request_example [''code_challenge'' \<mapsto> Some ''chosen-by-the-client''])
                  Map.empty) of
        Redirect (OAuth2Redirect params replacements) \<Rightarrow>
          params ''code_challenge'' = Some ''chosen-by-the-client''
          \<and> params ''code_challenge_method'' = Some ''S256''
          \<and> params ''state'' = Some ''session-1'' \<and> replacements = []
      | _ \<Rightarrow> False)
   \<and> map_option codeVerifier
        (snd (oauthRequest (services_example github_config oauth2_template) 1
                (request_example [''code_challenge'' \<mapsto> Some ''chosen-by-the-client''])
                Map.empty) ''session-1'')
       = Some ''00112233445566778899aabbccddeeff0011223344556677''"
  by (simp add: oauthRequest_def oauth2Request_def services_example_def request_example_def
        oauth2_template_def github_config_def apply_overrides_def override_def
        build_session_def request_connectionConfig_def present_def session_create_def
        spread_defined_def Let_def map_add_def base64url_def)

end
